theory Spec2Isabelle
  imports Complex_Main "HOL-Library.AList"
begin

section \<open>Values\<close>

text \<open>
  The SDK handles the values that \<^verbatim>\<open>json.loads\<close> produces: \<^verbatim>\<open>None\<close>, booleans,
  integers, floats, strings, lists and dicts. A \<open>char\<close> stands for one code point of a
  Python \<^verbatim>\<open>str\<close>, so \<open>length\<close> is Python's \<^verbatim>\<open>len\<close>. A finite float is
  represented by the rational it denotes. A dict is an association list in insertion
  order; lookup is \<open>map_of\<close>.
\<close>

datatype json =
    JNull
  | JBool bool
  | JInt int
  | JFloat rat
  | JStr string
  | JArr "json list"
  | JObj "(string \<times> json) list"

type_synonym dict = "(string \<times> json) list"

text \<open>Python truthiness, as \<^verbatim>\<open>if x:\<close> and \<^verbatim>\<open>x or y\<close> test it.\<close>

fun truthy :: "json \<Rightarrow> bool" where
  "truthy JNull = False"
| "truthy (JBool b) = b"
| "truthy (JInt i) = (i \<noteq> 0)"
| "truthy (JFloat r) = (r \<noteq> 0)"
| "truthy (JStr s) = (s \<noteq> [])"
| "truthy (JArr xs) = (xs \<noteq> [])"
| "truthy (JObj d) = (d \<noteq> [])"

text \<open>\<^verbatim>\<open>a or b\<close>: the first operand when it is truthy, else the second.\<close>

definition py_or :: "json \<Rightarrow> json \<Rightarrow> json" where
  "py_or a b = (if truthy a then a else b)"

fun is_dict :: "json \<Rightarrow> bool" where
  "is_dict (JObj d) = True"
| "is_dict _ = False"

section \<open>exceptions.py\<close>

text \<open>
  The five classes below \<^verbatim>\<open>SoroScanError\<close> share one constructor,
  \<^verbatim>\<open>SoroScanAPIError.__init__(message, status_code, response_data=None)\<close>, which
  stores \<^verbatim>\<open>response_data or {}\<close>. An exception object is its class and its three
  attributes.
\<close>

datatype api_error_class =
    SoroScanAPIError
  | SoroScanAuthError
  | SoroScanNotFoundError
  | SoroScanRateLimitError
  | SoroScanValidationError

record api_error =
  cls :: api_error_class
  message :: json
  status_code :: int
  response_data :: json

definition SoroScanAPIError_init :: "api_error_class \<Rightarrow> json \<Rightarrow> int \<Rightarrow> json \<Rightarrow> api_error" where
  "SoroScanAPIError_init c msg sc rd =
     \<lparr>cls = c, message = msg, status_code = sc, response_data = py_or rd (JObj [])\<rparr>"

text \<open>
  What an operation of the client can raise: an SDK error, the \<^verbatim>\<open>AttributeError\<close> of a
  method call on an object without that method, the decoding error of
  \<^verbatim>\<open>response.json()\<close>, the validation error of a pydantic model (the list of the
  failing fields), and whatever the transport raises.
\<close>

datatype field_error =
    missing string
  | invalid_type string
  | string_too_long string
  | model_type

datatype exn =
    Raise api_error
  | AttributeError
  | JSONDecodeError
  | PydanticValidationError "field_error list"
  | TransportError string

section \<open>client.py: responses, headers, response handling\<close>

text \<open>
  Of an \<^verbatim>\<open>httpx.Response\<close> the client reads \<^verbatim>\<open>status_code\<close>, \<^verbatim>\<open>text\<close> and
  \<^verbatim>\<open>json()\<close>. The JSON parser is the library's: \<open>resp_json\<close> is what \<^verbatim>\<open>json()\<close>
  returns, \<open>None\<close> when it raises.
\<close>

record response =
  resp_status_code :: int
  resp_text :: string
  resp_json :: "json option"

definition response_json :: "response \<Rightarrow> exn + json" where
  "response_json r = (case resp_json r of None \<Rightarrow> Inl JSONDecodeError | Some j \<Rightarrow> Inr j)"

text \<open>\<^verbatim>\<open>d.get(k)\<close> on a dict: the value, or \<^verbatim>\<open>None\<close> for a key that is not there.\<close>

definition dict_get :: "dict \<Rightarrow> string \<Rightarrow> json" where
  "dict_get d k = (case map_of d k of None \<Rightarrow> JNull | Some v \<Rightarrow> v)"

text \<open>The method call \<^verbatim>\<open>x.get(k)\<close>: only a dict has the method.\<close>

fun py_get :: "json \<Rightarrow> string \<Rightarrow> exn + json" where
  "py_get (JObj d) k = Inr (dict_get d k)"
| "py_get _ k = Inl AttributeError"

record client =
  base_url :: string
  api_key :: "string option"
  timeout :: rat

definition rstrip :: "char \<Rightarrow> string \<Rightarrow> string" where
  "rstrip c s = rev (dropWhile (\<lambda>x. x = c) (rev s))"

definition SoroScanClient_init :: "string \<Rightarrow> string option \<Rightarrow> rat \<Rightarrow> client" where
  "SoroScanClient_init base_url' api_key' timeout' =
     \<lparr>base_url = rstrip CHR ''/'' base_url', api_key = api_key', timeout = timeout'\<rparr>"

definition AsyncSoroScanClient_init :: "string \<Rightarrow> string option \<Rightarrow> rat \<Rightarrow> client" where
  "AsyncSoroScanClient_init base_url' api_key' timeout' =
     \<lparr>base_url = rstrip CHR ''/'' base_url', api_key = api_key', timeout = timeout'\<rparr>"

text \<open>\<^verbatim>\<open>if self.api_key:\<close> holds for a key that is neither \<^verbatim>\<open>None\<close> nor empty.\<close>

definition get_headers :: "client \<Rightarrow> (string \<times> string) list" where
  "get_headers self =
     (let headers = [(''Content-Type'', ''application/json'')] in
      case api_key self of
        None \<Rightarrow> headers
      | Some k \<Rightarrow>
          if k \<noteq> [] then AList.update ''Authorization'' (''Bearer '' @ k) headers
          else headers)"

definition async_get_headers :: "client \<Rightarrow> (string \<times> string) list" where
  "async_get_headers self =
     (let headers = [(''Content-Type'', ''application/json'')] in
      case api_key self of
        None \<Rightarrow> headers
      | Some k \<Rightarrow>
          if k \<noteq> [] then AList.update ''Authorization'' (''Bearer '' @ k) headers
          else headers)"

text \<open>
  \<^verbatim>\<open>_handle_response\<close>. After the success statuses, \<^verbatim>\<open>error_data\<close> is the parsed
  body, or \<^verbatim>\<open>{}\<close> when parsing raises; the message is
  \<^verbatim>\<open>error_data.get("detail") or error_data.get("error") or response.text\<close>, evaluated
  left to right; then the status selects the class.
\<close>

definition handle_response :: "response \<Rightarrow> exn + json" where
  "handle_response r =
     (if resp_status_code r = 200 \<or> resp_status_code r = 201 then response_json r
      else if resp_status_code r = 202 then response_json r
      else
        (let error_data = (case response_json r of Inr j \<Rightarrow> j | Inl e \<Rightarrow> JObj []) in
         case py_get error_data ''detail'' of
           Inl e \<Rightarrow> Inl e
         | Inr a \<Rightarrow>
             (case (if truthy a then Inr a else py_get error_data ''error'') of
                Inl e \<Rightarrow> Inl e
              | Inr b \<Rightarrow>
                  (let error_message = (if truthy b then b else JStr (resp_text r)) in
                   if resp_status_code r = 400 then
                     Inl (Raise (SoroScanAPIError_init SoroScanValidationError
                       error_message (resp_status_code r) error_data))
                   else if resp_status_code r = 401 \<or> resp_status_code r = 403 then
                     Inl (Raise (SoroScanAPIError_init SoroScanAuthError
                       error_message (resp_status_code r) error_data))
                   else if resp_status_code r = 404 then
                     Inl (Raise (SoroScanAPIError_init SoroScanNotFoundError
                       error_message (resp_status_code r) error_data))
                   else if resp_status_code r = 429 then
                     Inl (Raise (SoroScanAPIError_init SoroScanRateLimitError
                       error_message (resp_status_code r) error_data))
                   else
                     Inl (Raise (SoroScanAPIError_init SoroScanAPIError
                       error_message (resp_status_code r) error_data))))))"

definition async_handle_response :: "response \<Rightarrow> exn + json" where
  "async_handle_response r =
     (if resp_status_code r = 200 \<or> resp_status_code r = 201 then response_json r
      else if resp_status_code r = 202 then response_json r
      else
        (let error_data = (case response_json r of Inr j \<Rightarrow> j | Inl e \<Rightarrow> JObj []) in
         case py_get error_data ''detail'' of
           Inl e \<Rightarrow> Inl e
         | Inr a \<Rightarrow>
             (case (if truthy a then Inr a else py_get error_data ''error'') of
                Inl e \<Rightarrow> Inl e
              | Inr b \<Rightarrow>
                  (let error_message = (if truthy b then b else JStr (resp_text r)) in
                   if resp_status_code r = 400 then
                     Inl (Raise (SoroScanAPIError_init SoroScanValidationError
                       error_message (resp_status_code r) error_data))
                   else if resp_status_code r = 401 \<or> resp_status_code r = 403 then
                     Inl (Raise (SoroScanAPIError_init SoroScanAuthError
                       error_message (resp_status_code r) error_data))
                   else if resp_status_code r = 404 then
                     Inl (Raise (SoroScanAPIError_init SoroScanNotFoundError
                       error_message (resp_status_code r) error_data))
                   else if resp_status_code r = 429 then
                     Inl (Raise (SoroScanAPIError_init SoroScanRateLimitError
                       error_message (resp_status_code r) error_data))
                   else
                     Inl (Raise (SoroScanAPIError_init SoroScanAPIError
                       error_message (resp_status_code r) error_data))))))"

section \<open>client.py: requests\<close>

text \<open>
  A request is what the client hands to \<^verbatim>\<open>httpx\<close>: method, URL, headers, query
  parameters and JSON body. The URL is kept as the two arguments of \<^verbatim>\<open>urljoin\<close>.
  The transport answers a request with a response or raises; an operation returns the
  requests it has sent, in order, beside its result.
\<close>

datatype http_method = GET | POST | PATCH | DELETE

datatype url = urljoin string string

record request =
  http_method :: http_method
  http_url :: url
  http_headers :: "(string \<times> string) list"
  http_params :: "dict option"
  http_json :: "json option"

type_synonym transport = "request \<Rightarrow> exn + response"

text \<open>\<^verbatim>\<open>str(n)\<close> of an integer, as an f-string formats it.\<close>

fun nat_str :: "nat \<Rightarrow> string" where
  "nat_str n =
     (if n < 10 then [''0123456789'' ! n]
      else nat_str (n div 10) @ [''0123456789'' ! (n mod 10)])"

declare nat_str.simps [simp del]

definition int_str :: "int \<Rightarrow> string" where
  "int_str i = (if i < 0 then CHR ''-'' # nat_str (nat (- i)) else nat_str (nat i))"

text \<open>
  The parameters of \<^verbatim>\<open>get_contracts\<close> and \<^verbatim>\<open>get_events\<close>, as the functions build
  them before the transport call: \<^verbatim>\<open>is not None\<close> tests for the integer and boolean
  filters, truthiness tests for the string filters.
\<close>

definition get_contracts_params :: "bool option \<Rightarrow> string option \<Rightarrow> int \<Rightarrow> int \<Rightarrow> dict" where
  "get_contracts_params is_active search page page_size =
     (let params = [(''page'', JInt page), (''page_size'', JInt page_size)];
          params = (case is_active of
                      Some b \<Rightarrow> AList.update ''is_active'' (JBool b) params
                    | None \<Rightarrow> params);
          params = (case search of
                      Some s \<Rightarrow> if s \<noteq> [] then AList.update ''search'' (JStr s) params else params
                    | None \<Rightarrow> params)
      in params)"

definition get_contracts_request ::
  "client \<Rightarrow> bool option \<Rightarrow> string option \<Rightarrow> int \<Rightarrow> int \<Rightarrow> request" where
  "get_contracts_request self is_active search page page_size =
     \<lparr>http_method = GET, http_url = urljoin (base_url self) ''/api/contracts/'',
      http_headers = get_headers self,
      http_params = Some (get_contracts_params is_active search page page_size),
      http_json = None\<rparr>"

definition get_events_params ::
  "string option \<Rightarrow> string option \<Rightarrow> int option \<Rightarrow> int option \<Rightarrow> int option \<Rightarrow>
   string option \<Rightarrow> string \<Rightarrow> int \<Rightarrow> int \<Rightarrow> dict" where
  "get_events_params contract_id event_type ledger ledger_min ledger_max
       validation_status ordering' page page_size =
     (let params = [(''page'', JInt page), (''page_size'', JInt page_size),
                    (''ordering'', JStr ordering')];
          params = (case contract_id of
                      Some s \<Rightarrow> if s \<noteq> [] then AList.update ''contract__contract_id'' (JStr s) params
                                else params
                    | None \<Rightarrow> params);
          params = (case event_type of
                      Some s \<Rightarrow> if s \<noteq> [] then AList.update ''event_type'' (JStr s) params
                                else params
                    | None \<Rightarrow> params);
          params = (case ledger of
                      Some n \<Rightarrow> AList.update ''ledger'' (JInt n) params
                    | None \<Rightarrow> params);
          params = (case ledger_min of
                      Some n \<Rightarrow> AList.update ''ledger__gte'' (JInt n) params
                    | None \<Rightarrow> params);
          params = (case ledger_max of
                      Some n \<Rightarrow> AList.update ''ledger__lte'' (JInt n) params
                    | None \<Rightarrow> params);
          params = (case validation_status of
                      Some s \<Rightarrow> if s \<noteq> [] then AList.update ''validation_status'' (JStr s) params
                                else params
                    | None \<Rightarrow> params)
      in params)"

definition get_events_request ::
  "client \<Rightarrow> string option \<Rightarrow> string option \<Rightarrow> int option \<Rightarrow> int option \<Rightarrow> int option \<Rightarrow>
   string option \<Rightarrow> string \<Rightarrow> int \<Rightarrow> int \<Rightarrow> request" where
  "get_events_request self contract_id event_type ledger ledger_min ledger_max
       validation_status ordering' page page_size =
     \<lparr>http_method = GET, http_url = urljoin (base_url self) ''/api/events/'',
      http_headers = get_headers self,
      http_params = Some (get_events_params contract_id event_type ledger ledger_min
        ledger_max validation_status ordering' page page_size),
      http_json = None\<rparr>"

text \<open>
  \<^verbatim>\<open>delete_contract\<close> and \<^verbatim>\<open>delete_webhook\<close>: a 204 ends the call; any other
  response goes through \<^verbatim>\<open>_handle_response\<close>, whose value is dropped.
\<close>

definition delete_contract :: "client \<Rightarrow> transport \<Rightarrow> string \<Rightarrow> request list \<times> (exn + unit)" where
  "delete_contract self transport contract_id =
     (let url = urljoin (base_url self) (''/api/contracts/'' @ contract_id @ ''/'');
          req = \<lparr>http_method = DELETE, http_url = url, http_headers = get_headers self,
                 http_params = None, http_json = None\<rparr>
      in case transport req of
           Inl e \<Rightarrow> ([req], Inl e)
         | Inr response \<Rightarrow>
             ([req],
              if resp_status_code response \<noteq> 204 then
                (case handle_response response of Inl e \<Rightarrow> Inl e | Inr data \<Rightarrow> Inr ())
              else Inr ()))"

definition delete_webhook :: "client \<Rightarrow> transport \<Rightarrow> int \<Rightarrow> request list \<times> (exn + unit)" where
  "delete_webhook self transport webhook_id =
     (let url = urljoin (base_url self) (''/api/webhooks/'' @ int_str webhook_id @ ''/'');
          req = \<lparr>http_method = DELETE, http_url = url, http_headers = get_headers self,
                 http_params = None, http_json = None\<rparr>
      in case transport req of
           Inl e \<Rightarrow> ([req], Inl e)
         | Inr response \<Rightarrow>
             ([req],
              if resp_status_code response \<noteq> 204 then
                (case handle_response response of Inl e \<Rightarrow> Inl e | Inr data \<Rightarrow> Inr ())
              else Inr ()))"

section \<open>models.py\<close>

text \<open>
  A pydantic model is a record; \<^verbatim>\<open>model_validate\<close> is a function from a parsed value
  to the record or to a validation error listing the failing fields in declaration
  order. A field declared with \<^verbatim>\<open>Field(...)\<close> or without default is required; a field
  with a default takes it when its key is absent, and is validated when the key is
  there. Keys that name no field are ignored.

  A \<^verbatim>\<open>str\<close> field takes a string and a \<^verbatim>\<open>dict\<close> field a dict. What pydantic
  accepts for \<^verbatim>\<open>int\<close>, \<^verbatim>\<open>bool\<close> and \<^verbatim>\<open>datetime\<close> fields (it converts some values
  of other types) is the library's, and the decoders take these conversions as a
  parameter.
\<close>

type_synonym 'a validator = "json \<Rightarrow> 'a option"

record 'dt conversions =
  to_int :: "int validator"
  to_bool :: "bool validator"
  to_datetime :: "'dt validator"

definition str_validator :: "string validator" where
  "str_validator j = (case j of JStr s \<Rightarrow> Some s | _ \<Rightarrow> None)"

definition dict_validator :: "dict validator" where
  "dict_validator j = (case j of JObj d \<Rightarrow> Some d | _ \<Rightarrow> None)"

text \<open>\<^verbatim>\<open>T | None\<close>.\<close>

definition nullable :: "'a validator \<Rightarrow> 'a option validator" where
  "nullable v j = (case j of JNull \<Rightarrow> Some None | _ \<Rightarrow> map_option Some (v j))"

definition required_field :: "dict \<Rightarrow> string \<Rightarrow> 'a validator \<Rightarrow> field_error + 'a" where
  "required_field d k v =
     (case map_of d k of
        None \<Rightarrow> Inl (missing k)
      | Some j \<Rightarrow> (case v j of None \<Rightarrow> Inl (invalid_type k) | Some a \<Rightarrow> Inr a))"

definition default_field :: "dict \<Rightarrow> string \<Rightarrow> 'a \<Rightarrow> 'a validator \<Rightarrow> field_error + 'a" where
  "default_field d k dflt v =
     (case map_of d k of
        None \<Rightarrow> Inr dflt
      | Some j \<Rightarrow> (case v j of None \<Rightarrow> Inl (invalid_type k) | Some a \<Rightarrow> Inr a))"

text \<open>
  The fields of a model are validated one after the other and every error is kept:
  \<open>ap\<close> feeds one more field to the constructor, or adds its error to the list.
\<close>

fun ap :: "field_error list + ('a \<Rightarrow> 'b) \<Rightarrow> field_error + 'a \<Rightarrow> field_error list + 'b" where
  "ap (Inr f) (Inr a) = Inr (f a)"
| "ap (Inr f) (Inl e) = Inl [e]"
| "ap (Inl es) (Inr a) = Inl es"
| "ap (Inl es) (Inl e) = Inl (es @ [e])"

definition validated :: "field_error list + 'a \<Rightarrow> exn + 'a" where
  "validated x = (case x of Inl es \<Rightarrow> Inl (PydanticValidationError es) | Inr a \<Rightarrow> Inr a)"

record 'dt TrackedContract =
  tc_id :: int
  tc_contract_id :: string
  tc_name :: string
  tc_description :: string
  tc_abi_schema :: "dict option"
  tc_is_active :: bool
  tc_last_indexed_ledger :: "int option"
  tc_event_count :: int
  tc_created_at :: 'dt
  tc_updated_at :: 'dt

definition TrackedContract_validate :: "'dt conversions \<Rightarrow> json \<Rightarrow> exn + 'dt TrackedContract" where
  "TrackedContract_validate C data =
     (case data of
        JObj d \<Rightarrow> validated
          (ap (ap (ap (ap (ap (ap (ap (ap (ap (ap (Inr TrackedContract.make)
            (required_field d ''id'' (to_int C)))
            (required_field d ''contract_id'' str_validator))
            (required_field d ''name'' str_validator))
            (default_field d ''description'' [] str_validator))
            (default_field d ''abi_schema'' None (nullable dict_validator)))
            (default_field d ''is_active'' True (to_bool C)))
            (default_field d ''last_indexed_ledger'' None (nullable (to_int C))))
            (default_field d ''event_count'' 0 (to_int C)))
            (required_field d ''created_at'' (to_datetime C)))
            (required_field d ''updated_at'' (to_datetime C)))
      | _ \<Rightarrow> Inl (PydanticValidationError [model_type]))"

record 'dt ContractEvent =
  ev_id :: int
  ev_contract_id :: string
  ev_contract_name :: string
  ev_event_type :: string
  ev_payload :: dict
  ev_payload_hash :: string
  ev_ledger :: int
  ev_event_index :: int
  ev_timestamp :: 'dt
  ev_tx_hash :: string
  ev_schema_version :: "int option"
  ev_validation_status :: string

definition ContractEvent_validate :: "'dt conversions \<Rightarrow> json \<Rightarrow> exn + 'dt ContractEvent" where
  "ContractEvent_validate C data =
     (case data of
        JObj d \<Rightarrow> validated
          (ap (ap (ap (ap (ap (ap (ap (ap (ap (ap (ap (ap (Inr ContractEvent.make)
            (required_field d ''id'' (to_int C)))
            (required_field d ''contract_id'' str_validator))
            (required_field d ''contract_name'' str_validator))
            (required_field d ''event_type'' str_validator))
            (required_field d ''payload'' dict_validator))
            (required_field d ''payload_hash'' str_validator))
            (required_field d ''ledger'' (to_int C)))
            (default_field d ''event_index'' 0 (to_int C)))
            (required_field d ''timestamp'' (to_datetime C)))
            (required_field d ''tx_hash'' str_validator))
            (default_field d ''schema_version'' None (nullable (to_int C))))
            (default_field d ''validation_status'' ''passed'' str_validator))
      | _ \<Rightarrow> Inl (PydanticValidationError [model_type]))"

record 'dt WebhookSubscription =
  wh_id :: int
  wh_contract :: int
  wh_contract_id :: string
  wh_event_type :: string
  wh_target_url :: string
  wh_is_active :: bool
  wh_created_at :: 'dt
  wh_last_triggered :: "'dt option"
  wh_failure_count :: int

definition WebhookSubscription_validate ::
  "'dt conversions \<Rightarrow> json \<Rightarrow> exn + 'dt WebhookSubscription" where
  "WebhookSubscription_validate C data =
     (case data of
        JObj d \<Rightarrow> validated
          (ap (ap (ap (ap (ap (ap (ap (ap (ap (Inr WebhookSubscription.make)
            (required_field d ''id'' (to_int C)))
            (required_field d ''contract'' (to_int C)))
            (required_field d ''contract_id'' str_validator))
            (default_field d ''event_type'' [] str_validator))
            (required_field d ''target_url'' str_validator))
            (default_field d ''is_active'' True (to_bool C)))
            (required_field d ''created_at'' (to_datetime C)))
            (default_field d ''last_triggered'' None (nullable (to_datetime C))))
            (default_field d ''failure_count'' 0 (to_int C)))
      | _ \<Rightarrow> Inl (PydanticValidationError [model_type]))"

record 'dt ContractStats =
  cs_contract_id :: string
  cs_name :: string
  cs_total_events :: int
  cs_unique_event_types :: int
  cs_latest_ledger :: "int option"
  cs_last_activity :: "'dt option"

definition ContractStats_validate :: "'dt conversions \<Rightarrow> json \<Rightarrow> exn + 'dt ContractStats" where
  "ContractStats_validate C data =
     (case data of
        JObj d \<Rightarrow> validated
          (ap (ap (ap (ap (ap (ap (Inr ContractStats.make)
            (required_field d ''contract_id'' str_validator))
            (required_field d ''name'' str_validator))
            (required_field d ''total_events'' (to_int C)))
            (required_field d ''unique_event_types'' (to_int C)))
            (default_field d ''latest_ledger'' None (nullable (to_int C))))
            (default_field d ''last_activity'' None (nullable (to_datetime C))))
      | _ \<Rightarrow> Inl (PydanticValidationError [model_type]))"

text \<open>
  \<^verbatim>\<open>PaginatedResponse[T]\<close>: the results are a list whose elements are decoded by the
  model \<^verbatim>\<open>T\<close>, and the field fails when one element does. The error of the element
  is not kept apart: the field \<^verbatim>\<open>results\<close> is the one reported.
\<close>

record 'a PaginatedResponse =
  pg_count :: int
  pg_next :: "string option"
  pg_previous :: "string option"
  pg_results :: "'a list"

definition model_validator :: "(json \<Rightarrow> exn + 'a) \<Rightarrow> 'a validator" where
  "model_validator model j = (case model j of Inl e \<Rightarrow> None | Inr a \<Rightarrow> Some a)"

definition list_validator :: "'a validator \<Rightarrow> 'a list validator" where
  "list_validator v j = (case j of JArr xs \<Rightarrow> those (map v xs) | _ \<Rightarrow> None)"

definition PaginatedResponse_validate ::
  "'dt conversions \<Rightarrow> (json \<Rightarrow> exn + 'a) \<Rightarrow> json \<Rightarrow> exn + 'a PaginatedResponse" where
  "PaginatedResponse_validate C model data =
     (case data of
        JObj d \<Rightarrow> validated
          (ap (ap (ap (ap (Inr PaginatedResponse.make)
            (required_field d ''count'' (to_int C)))
            (default_field d ''next'' None (nullable str_validator)))
            (default_field d ''previous'' None (nullable str_validator)))
            (required_field d ''results'' (list_validator (model_validator model))))
      | _ \<Rightarrow> Inl (PydanticValidationError [model_type]))"

subsection \<open>An instance of the conversions\<close>

text \<open>
  The conversions of a value that already has the annotated type: an integer for
  \<^verbatim>\<open>int\<close>, a boolean for \<^verbatim>\<open>bool\<close>, and for \<^verbatim>\<open>datetime\<close> a string of the form
  \<^verbatim>\<open>YYYY-MM-DDTHH:MM:SSZ\<close> that names a date of the calendar. Pydantic accepts all of
  these, and more.
\<close>

record datetime =
  year :: nat
  month :: nat
  day :: nat
  hour :: nat
  minute :: nat
  second :: nat

definition digit :: "char \<Rightarrow> nat option" where
  "digit c = (let n = of_char c :: nat in if 48 \<le> n \<and> n \<le> 57 then Some (n - 48) else None)"

fun number :: "nat \<Rightarrow> string \<Rightarrow> nat option" where
  "number acc [] = Some acc"
| "number acc (c # cs) = (case digit c of None \<Rightarrow> None | Some k \<Rightarrow> number (10 * acc + k) cs)"

definition days_in_month :: "nat \<Rightarrow> nat \<Rightarrow> nat" where
  "days_in_month y m =
     (if m = 2 then (if y mod 400 = 0 \<or> (y mod 4 = 0 \<and> y mod 100 \<noteq> 0) then 29 else 28)
      else if m = 4 \<or> m = 6 \<or> m = 9 \<or> m = 11 then 30
      else 31)"

definition parse_datetime :: "string \<Rightarrow> datetime option" where
  "parse_datetime s =
     (if length s = 20 \<and> s ! 4 = CHR ''-'' \<and> s ! 7 = CHR ''-'' \<and> s ! 10 = CHR ''T'' \<and>
         s ! 13 = CHR '':'' \<and> s ! 16 = CHR '':'' \<and> s ! 19 = CHR ''Z''
      then
        Option.bind (number 0 (take 4 s)) (\<lambda>y.
        Option.bind (number 0 (take 2 (drop 5 s))) (\<lambda>m.
        Option.bind (number 0 (take 2 (drop 8 s))) (\<lambda>d.
        Option.bind (number 0 (take 2 (drop 11 s))) (\<lambda>h.
        Option.bind (number 0 (take 2 (drop 14 s))) (\<lambda>mi.
        Option.bind (number 0 (take 2 (drop 17 s))) (\<lambda>se.
          if 1 \<le> y \<and> 1 \<le> m \<and> m \<le> 12 \<and> 1 \<le> d \<and> d \<le> days_in_month y m \<and>
             h < 24 \<and> mi < 60 \<and> se < 60
          then Some \<lparr>year = y, month = m, day = d, hour = h, minute = mi, second = se\<rparr>
          else None))))))
      else None)"

definition json_conversions :: "datetime conversions" where
  "json_conversions =
     \<lparr>to_int = (\<lambda>j. case j of JInt i \<Rightarrow> Some i | _ \<Rightarrow> None),
      to_bool = (\<lambda>j. case j of JBool b \<Rightarrow> Some b | _ \<Rightarrow> None),
      to_datetime = (\<lambda>j. case j of JStr s \<Rightarrow> parse_datetime s | _ \<Rightarrow> None)\<rparr>"

text \<open>
  \<^verbatim>\<open>RecordEventRequest\<close> is built by its constructor from three strings; each field
  has a \<^verbatim>\<open>max_length\<close>.
\<close>

record RecordEventRequest =
  rq_contract_id :: string
  rq_event_type :: string
  rq_payload_hash :: string

definition max_length :: "nat \<Rightarrow> string \<Rightarrow> string \<Rightarrow> field_error + string" where
  "max_length n k s = (if length s \<le> n then Inr s else Inl (string_too_long k))"

definition RecordEventRequest_init :: "string \<Rightarrow> string \<Rightarrow> string \<Rightarrow> exn + RecordEventRequest" where
  "RecordEventRequest_init contract_id event_type payload_hash = validated
     (ap (ap (ap (Inr RecordEventRequest.make)
       (max_length 56 ''contract_id'' contract_id))
       (max_length 100 ''event_type'' event_type))
       (max_length 64 ''payload_hash'' payload_hash))"

definition model_dump :: "RecordEventRequest \<Rightarrow> json" where
  "model_dump request =
     JObj [(''contract_id'', JStr (rq_contract_id request)),
           (''event_type'', JStr (rq_event_type request)),
           (''payload_hash'', JStr (rq_payload_hash request))]"

record RecordEventResponse =
  rs_status :: string
  rs_tx_hash :: "string option"
  rs_transaction_status :: "string option"
  rs_error :: "string option"

definition RecordEventResponse_validate :: "json \<Rightarrow> exn + RecordEventResponse" where
  "RecordEventResponse_validate data =
     (case data of
        JObj d \<Rightarrow> validated
          (ap (ap (ap (ap (Inr RecordEventResponse.make)
            (required_field d ''status'' str_validator))
            (default_field d ''tx_hash'' None (nullable str_validator)))
            (default_field d ''transaction_status'' None (nullable str_validator)))
            (default_field d ''error'' None (nullable str_validator)))
      | _ \<Rightarrow> Inl (PydanticValidationError [model_type]))"

section \<open>client.py: record_event\<close>

text \<open>
  The request model is built first, so its validation error leaves the function before
  the transport is called.
\<close>

definition record_event ::
  "client \<Rightarrow> transport \<Rightarrow> string \<Rightarrow> string \<Rightarrow> string \<Rightarrow> request list \<times> (exn + RecordEventResponse)" where
  "record_event self transport contract_id event_type payload_hash =
     (let url = urljoin (base_url self) ''/api/record-event/'' in
      case RecordEventRequest_init contract_id event_type payload_hash of
        Inl e \<Rightarrow> ([], Inl e)
      | Inr request \<Rightarrow>
          (let req = \<lparr>http_method = POST, http_url = url, http_headers = get_headers self,
                      http_params = None, http_json = Some (model_dump request)\<rparr>
           in case transport req of
                Inl e \<Rightarrow> ([req], Inl e)
              | Inr response \<Rightarrow>
                  ([req],
                   case handle_response response of
                     Inl e \<Rightarrow> Inl e
                   | Inr data \<Rightarrow> RecordEventResponse_validate data)))"

section \<open>client.py: the other operations of SoroScanClient\<close>

text \<open>
  Every operation builds its request, hands it to the transport, passes the response
  through \<^verbatim>\<open>_handle_response\<close> and decodes the data with the model of its result.
  Arguments with a default in the source are arguments here.
\<close>

definition get_contracts ::
  "'dt conversions \<Rightarrow> client \<Rightarrow> transport \<Rightarrow> bool option \<Rightarrow> string option \<Rightarrow> int \<Rightarrow> int \<Rightarrow>
   request list \<times> (exn + 'dt TrackedContract PaginatedResponse)" where
  "get_contracts C self transport is_active search page page_size =
     (let req = get_contracts_request self is_active search page page_size
      in case transport req of
           Inl e \<Rightarrow> ([req], Inl e)
         | Inr response \<Rightarrow>
             ([req],
              case handle_response response of
                Inl e \<Rightarrow> Inl e
              | Inr data \<Rightarrow> PaginatedResponse_validate C (TrackedContract_validate C) data))"

definition get_contract ::
  "'dt conversions \<Rightarrow> client \<Rightarrow> transport \<Rightarrow> string \<Rightarrow> request list \<times> (exn + 'dt TrackedContract)" where
  "get_contract C self transport contract_id =
     (let url = urljoin (base_url self) (''/api/contracts/'' @ contract_id @ ''/'');
          req = \<lparr>http_method = GET, http_url = url, http_headers = get_headers self,
                 http_params = None, http_json = None\<rparr>
      in case transport req of
           Inl e \<Rightarrow> ([req], Inl e)
         | Inr response \<Rightarrow>
             ([req],
              case handle_response response of
                Inl e \<Rightarrow> Inl e
              | Inr data \<Rightarrow> TrackedContract_validate C data))"

definition create_contract ::
  "'dt conversions \<Rightarrow> client \<Rightarrow> transport \<Rightarrow> string \<Rightarrow> string \<Rightarrow> string \<Rightarrow> dict option \<Rightarrow>
   request list \<times> (exn + 'dt TrackedContract)" where
  "create_contract C self transport contract_id name description abi_schema =
     (let url = urljoin (base_url self) ''/api/contracts/'';
          payload = [(''contract_id'', JStr contract_id), (''name'', JStr name),
                     (''description'', JStr description)];
          payload = (case abi_schema of
                       Some d \<Rightarrow> if d \<noteq> [] then AList.update ''abi_schema'' (JObj d) payload
                                 else payload
                     | None \<Rightarrow> payload);
          req = \<lparr>http_method = POST, http_url = url, http_headers = get_headers self,
                 http_params = None, http_json = Some (JObj payload)\<rparr>
      in case transport req of
           Inl e \<Rightarrow> ([req], Inl e)
         | Inr response \<Rightarrow>
             ([req],
              case handle_response response of
                Inl e \<Rightarrow> Inl e
              | Inr data \<Rightarrow> TrackedContract_validate C data))"

definition update_contract ::
  "'dt conversions \<Rightarrow> client \<Rightarrow> transport \<Rightarrow> string \<Rightarrow> string option \<Rightarrow> string option \<Rightarrow>
   bool option \<Rightarrow> request list \<times> (exn + 'dt TrackedContract)" where
  "update_contract C self transport contract_id name description is_active =
     (let url = urljoin (base_url self) (''/api/contracts/'' @ contract_id @ ''/'');
          payload = [];
          payload = (case name of
                       Some s \<Rightarrow> AList.update ''name'' (JStr s) payload
                     | None \<Rightarrow> payload);
          payload = (case description of
                       Some s \<Rightarrow> AList.update ''description'' (JStr s) payload
                     | None \<Rightarrow> payload);
          payload = (case is_active of
                       Some b \<Rightarrow> AList.update ''is_active'' (JBool b) payload
                     | None \<Rightarrow> payload);
          req = \<lparr>http_method = PATCH, http_url = url, http_headers = get_headers self,
                 http_params = None, http_json = Some (JObj payload)\<rparr>
      in case transport req of
           Inl e \<Rightarrow> ([req], Inl e)
         | Inr response \<Rightarrow>
             ([req],
              case handle_response response of
                Inl e \<Rightarrow> Inl e
              | Inr data \<Rightarrow> TrackedContract_validate C data))"

definition get_contract_stats ::
  "'dt conversions \<Rightarrow> client \<Rightarrow> transport \<Rightarrow> string \<Rightarrow> request list \<times> (exn + 'dt ContractStats)" where
  "get_contract_stats C self transport contract_id =
     (let url = urljoin (base_url self) (''/api/contracts/'' @ contract_id @ ''/stats/'');
          req = \<lparr>http_method = GET, http_url = url, http_headers = get_headers self,
                 http_params = None, http_json = None\<rparr>
      in case transport req of
           Inl e \<Rightarrow> ([req], Inl e)
         | Inr response \<Rightarrow>
             ([req],
              case handle_response response of
                Inl e \<Rightarrow> Inl e
              | Inr data \<Rightarrow> ContractStats_validate C data))"

definition get_events ::
  "'dt conversions \<Rightarrow> client \<Rightarrow> transport \<Rightarrow> string option \<Rightarrow> string option \<Rightarrow> int option \<Rightarrow>
   int option \<Rightarrow> int option \<Rightarrow> string option \<Rightarrow> string \<Rightarrow> int \<Rightarrow> int \<Rightarrow>
   request list \<times> (exn + 'dt ContractEvent PaginatedResponse)" where
  "get_events C self transport contract_id event_type ledger ledger_min ledger_max
       validation_status ordering' page page_size =
     (let req = get_events_request self contract_id event_type ledger ledger_min ledger_max
                  validation_status ordering' page page_size
      in case transport req of
           Inl e \<Rightarrow> ([req], Inl e)
         | Inr response \<Rightarrow>
             ([req],
              case handle_response response of
                Inl e \<Rightarrow> Inl e
              | Inr data \<Rightarrow> PaginatedResponse_validate C (ContractEvent_validate C) data))"

definition get_event ::
  "'dt conversions \<Rightarrow> client \<Rightarrow> transport \<Rightarrow> int \<Rightarrow> request list \<times> (exn + 'dt ContractEvent)" where
  "get_event C self transport event_id =
     (let url = urljoin (base_url self) (''/api/events/'' @ int_str event_id @ ''/'');
          req = \<lparr>http_method = GET, http_url = url, http_headers = get_headers self,
                 http_params = None, http_json = None\<rparr>
      in case transport req of
           Inl e \<Rightarrow> ([req], Inl e)
         | Inr response \<Rightarrow>
             ([req],
              case handle_response response of
                Inl e \<Rightarrow> Inl e
              | Inr data \<Rightarrow> ContractEvent_validate C data))"

definition get_webhooks ::
  "'dt conversions \<Rightarrow> client \<Rightarrow> transport \<Rightarrow> int \<Rightarrow> int \<Rightarrow>
   request list \<times> (exn + 'dt WebhookSubscription PaginatedResponse)" where
  "get_webhooks C self transport page page_size =
     (let params = [(''page'', JInt page), (''page_size'', JInt page_size)];
          url = urljoin (base_url self) ''/api/webhooks/'';
          req = \<lparr>http_method = GET, http_url = url, http_headers = get_headers self,
                 http_params = Some params, http_json = None\<rparr>
      in case transport req of
           Inl e \<Rightarrow> ([req], Inl e)
         | Inr response \<Rightarrow>
             ([req],
              case handle_response response of
                Inl e \<Rightarrow> Inl e
              | Inr data \<Rightarrow> PaginatedResponse_validate C (WebhookSubscription_validate C) data))"

definition get_webhook ::
  "'dt conversions \<Rightarrow> client \<Rightarrow> transport \<Rightarrow> int \<Rightarrow> request list \<times> (exn + 'dt WebhookSubscription)" where
  "get_webhook C self transport webhook_id =
     (let url = urljoin (base_url self) (''/api/webhooks/'' @ int_str webhook_id @ ''/'');
          req = \<lparr>http_method = GET, http_url = url, http_headers = get_headers self,
                 http_params = None, http_json = None\<rparr>
      in case transport req of
           Inl e \<Rightarrow> ([req], Inl e)
         | Inr response \<Rightarrow>
             ([req],
              case handle_response response of
                Inl e \<Rightarrow> Inl e
              | Inr data \<Rightarrow> WebhookSubscription_validate C data))"

definition create_webhook ::
  "'dt conversions \<Rightarrow> client \<Rightarrow> transport \<Rightarrow> int \<Rightarrow> string \<Rightarrow> string \<Rightarrow>
   request list \<times> (exn + 'dt WebhookSubscription)" where
  "create_webhook C self transport contract_id target_url event_type =
     (let url = urljoin (base_url self) ''/api/webhooks/'';
          payload = [(''contract'', JInt contract_id), (''target_url'', JStr target_url),
                     (''event_type'', JStr event_type)];
          req = \<lparr>http_method = POST, http_url = url, http_headers = get_headers self,
                 http_params = None, http_json = Some (JObj payload)\<rparr>
      in case transport req of
           Inl e \<Rightarrow> ([req], Inl e)
         | Inr response \<Rightarrow>
             ([req],
              case handle_response response of
                Inl e \<Rightarrow> Inl e
              | Inr data \<Rightarrow> WebhookSubscription_validate C data))"

definition update_webhook ::
  "'dt conversions \<Rightarrow> client \<Rightarrow> transport \<Rightarrow> int \<Rightarrow> string option \<Rightarrow> string option \<Rightarrow>
   bool option \<Rightarrow> request list \<times> (exn + 'dt WebhookSubscription)" where
  "update_webhook C self transport webhook_id target_url event_type is_active =
     (let url = urljoin (base_url self) (''/api/webhooks/'' @ int_str webhook_id @ ''/'');
          payload = [];
          payload = (case target_url of
                       Some s \<Rightarrow> AList.update ''target_url'' (JStr s) payload
                     | None \<Rightarrow> payload);
          payload = (case event_type of
                       Some s \<Rightarrow> AList.update ''event_type'' (JStr s) payload
                     | None \<Rightarrow> payload);
          payload = (case is_active of
                       Some b \<Rightarrow> AList.update ''is_active'' (JBool b) payload
                     | None \<Rightarrow> payload);
          req = \<lparr>http_method = PATCH, http_url = url, http_headers = get_headers self,
                 http_params = None, http_json = Some (JObj payload)\<rparr>
      in case transport req of
           Inl e \<Rightarrow> ([req], Inl e)
         | Inr response \<Rightarrow>
             ([req],
              case handle_response response of
                Inl e \<Rightarrow> Inl e
              | Inr data \<Rightarrow> WebhookSubscription_validate C data))"

definition test_webhook ::
  "client \<Rightarrow> transport \<Rightarrow> int \<Rightarrow> request list \<times> (exn + json)" where
  "test_webhook self transport webhook_id =
     (let url = urljoin (base_url self) (''/api/webhooks/'' @ int_str webhook_id @ ''/test/'');
          req = \<lparr>http_method = POST, http_url = url, http_headers = get_headers self,
                 http_params = None, http_json = None\<rparr>
      in case transport req of
           Inl e \<Rightarrow> ([req], Inl e)
         | Inr response \<Rightarrow> ([req], handle_response response))"

section \<open>client.py: AsyncSoroScanClient\<close>

text \<open>
  The operations of the asynchronous client, from its own source, over its own
  \<^verbatim>\<open>_get_headers\<close> and \<^verbatim>\<open>_handle_response\<close>. An \<^verbatim>\<open>await\<close> on the transport is
  the call whose answer the operation goes on with; the scheduling of several calls in
  flight is not part of a single operation and is not modelled.
\<close>

definition async_get_contracts_params :: "bool option \<Rightarrow> string option \<Rightarrow> int \<Rightarrow> int \<Rightarrow> dict" where
  "async_get_contracts_params is_active search page page_size =
     (let params = [(''page'', JInt page), (''page_size'', JInt page_size)];
          params = (case is_active of
                      Some b \<Rightarrow> AList.update ''is_active'' (JBool b) params
                    | None \<Rightarrow> params);
          params = (case search of
                      Some s \<Rightarrow> if s \<noteq> [] then AList.update ''search'' (JStr s) params else params
                    | None \<Rightarrow> params)
      in params)"

definition async_get_contracts_request ::
  "client \<Rightarrow> bool option \<Rightarrow> string option \<Rightarrow> int \<Rightarrow> int \<Rightarrow> request" where
  "async_get_contracts_request self is_active search page page_size =
     \<lparr>http_method = GET, http_url = urljoin (base_url self) ''/api/contracts/'',
      http_headers = async_get_headers self,
      http_params = Some (async_get_contracts_params is_active search page page_size),
      http_json = None\<rparr>"

definition async_get_events_params ::
  "string option \<Rightarrow> string option \<Rightarrow> int option \<Rightarrow> int option \<Rightarrow> int option \<Rightarrow>
   string option \<Rightarrow> string \<Rightarrow> int \<Rightarrow> int \<Rightarrow> dict" where
  "async_get_events_params contract_id event_type ledger ledger_min ledger_max
       validation_status ordering' page page_size =
     (let params = [(''page'', JInt page), (''page_size'', JInt page_size),
                    (''ordering'', JStr ordering')];
          params = (case contract_id of
                      Some s \<Rightarrow> if s \<noteq> [] then AList.update ''contract__contract_id'' (JStr s) params
                                else params
                    | None \<Rightarrow> params);
          params = (case event_type of
                      Some s \<Rightarrow> if s \<noteq> [] then AList.update ''event_type'' (JStr s) params
                                else params
                    | None \<Rightarrow> params);
          params = (case ledger of
                      Some n \<Rightarrow> AList.update ''ledger'' (JInt n) params
                    | None \<Rightarrow> params);
          params = (case ledger_min of
                      Some n \<Rightarrow> AList.update ''ledger__gte'' (JInt n) params
                    | None \<Rightarrow> params);
          params = (case ledger_max of
                      Some n \<Rightarrow> AList.update ''ledger__lte'' (JInt n) params
                    | None \<Rightarrow> params);
          params = (case validation_status of
                      Some s \<Rightarrow> if s \<noteq> [] then AList.update ''validation_status'' (JStr s) params
                                else params
                    | None \<Rightarrow> params)
      in params)"

definition async_get_events_request ::
  "client \<Rightarrow> string option \<Rightarrow> string option \<Rightarrow> int option \<Rightarrow> int option \<Rightarrow> int option \<Rightarrow>
   string option \<Rightarrow> string \<Rightarrow> int \<Rightarrow> int \<Rightarrow> request" where
  "async_get_events_request self contract_id event_type ledger ledger_min ledger_max
       validation_status ordering' page page_size =
     \<lparr>http_method = GET, http_url = urljoin (base_url self) ''/api/events/'',
      http_headers = async_get_headers self,
      http_params = Some (async_get_events_params contract_id event_type ledger ledger_min
        ledger_max validation_status ordering' page page_size),
      http_json = None\<rparr>"

definition async_get_contracts ::
  "'dt conversions \<Rightarrow> client \<Rightarrow> transport \<Rightarrow> bool option \<Rightarrow> string option \<Rightarrow> int \<Rightarrow> int \<Rightarrow>
   request list \<times> (exn + 'dt TrackedContract PaginatedResponse)" where
  "async_get_contracts C self transport is_active search page page_size =
     (let req = async_get_contracts_request self is_active search page page_size
      in case transport req of
           Inl e \<Rightarrow> ([req], Inl e)
         | Inr response \<Rightarrow>
             ([req],
              case async_handle_response response of
                Inl e \<Rightarrow> Inl e
              | Inr data \<Rightarrow> PaginatedResponse_validate C (TrackedContract_validate C) data))"

definition async_get_contract ::
  "'dt conversions \<Rightarrow> client \<Rightarrow> transport \<Rightarrow> string \<Rightarrow> request list \<times> (exn + 'dt TrackedContract)" where
  "async_get_contract C self transport contract_id =
     (let url = urljoin (base_url self) (''/api/contracts/'' @ contract_id @ ''/'');
          req = \<lparr>http_method = GET, http_url = url, http_headers = async_get_headers self,
                 http_params = None, http_json = None\<rparr>
      in case transport req of
           Inl e \<Rightarrow> ([req], Inl e)
         | Inr response \<Rightarrow>
             ([req],
              case async_handle_response response of
                Inl e \<Rightarrow> Inl e
              | Inr data \<Rightarrow> TrackedContract_validate C data))"

definition async_create_contract ::
  "'dt conversions \<Rightarrow> client \<Rightarrow> transport \<Rightarrow> string \<Rightarrow> string \<Rightarrow> string \<Rightarrow> dict option \<Rightarrow>
   request list \<times> (exn + 'dt TrackedContract)" where
  "async_create_contract C self transport contract_id name description abi_schema =
     (let url = urljoin (base_url self) ''/api/contracts/'';
          payload = [(''contract_id'', JStr contract_id), (''name'', JStr name),
                     (''description'', JStr description)];
          payload = (case abi_schema of
                       Some d \<Rightarrow> if d \<noteq> [] then AList.update ''abi_schema'' (JObj d) payload
                                 else payload
                     | None \<Rightarrow> payload);
          req = \<lparr>http_method = POST, http_url = url, http_headers = async_get_headers self,
                 http_params = None, http_json = Some (JObj payload)\<rparr>
      in case transport req of
           Inl e \<Rightarrow> ([req], Inl e)
         | Inr response \<Rightarrow>
             ([req],
              case async_handle_response response of
                Inl e \<Rightarrow> Inl e
              | Inr data \<Rightarrow> TrackedContract_validate C data))"

definition async_update_contract ::
  "'dt conversions \<Rightarrow> client \<Rightarrow> transport \<Rightarrow> string \<Rightarrow> string option \<Rightarrow> string option \<Rightarrow>
   bool option \<Rightarrow> request list \<times> (exn + 'dt TrackedContract)" where
  "async_update_contract C self transport contract_id name description is_active =
     (let url = urljoin (base_url self) (''/api/contracts/'' @ contract_id @ ''/'');
          payload = [];
          payload = (case name of
                       Some s \<Rightarrow> AList.update ''name'' (JStr s) payload
                     | None \<Rightarrow> payload);
          payload = (case description of
                       Some s \<Rightarrow> AList.update ''description'' (JStr s) payload
                     | None \<Rightarrow> payload);
          payload = (case is_active of
                       Some b \<Rightarrow> AList.update ''is_active'' (JBool b) payload
                     | None \<Rightarrow> payload);
          req = \<lparr>http_method = PATCH, http_url = url, http_headers = async_get_headers self,
                 http_params = None, http_json = Some (JObj payload)\<rparr>
      in case transport req of
           Inl e \<Rightarrow> ([req], Inl e)
         | Inr response \<Rightarrow>
             ([req],
              case async_handle_response response of
                Inl e \<Rightarrow> Inl e
              | Inr data \<Rightarrow> TrackedContract_validate C data))"

definition async_delete_contract :: "client \<Rightarrow> transport \<Rightarrow> string \<Rightarrow> request list \<times> (exn + unit)" where
  "async_delete_contract self transport contract_id =
     (let url = urljoin (base_url self) (''/api/contracts/'' @ contract_id @ ''/'');
          req = \<lparr>http_method = DELETE, http_url = url, http_headers = async_get_headers self,
                 http_params = None, http_json = None\<rparr>
      in case transport req of
           Inl e \<Rightarrow> ([req], Inl e)
         | Inr response \<Rightarrow>
             ([req],
              if resp_status_code response \<noteq> 204 then
                (case async_handle_response response of Inl e \<Rightarrow> Inl e | Inr data \<Rightarrow> Inr ())
              else Inr ()))"

definition async_delete_webhook :: "client \<Rightarrow> transport \<Rightarrow> int \<Rightarrow> request list \<times> (exn + unit)" where
  "async_delete_webhook self transport webhook_id =
     (let url = urljoin (base_url self) (''/api/webhooks/'' @ int_str webhook_id @ ''/'');
          req = \<lparr>http_method = DELETE, http_url = url, http_headers = async_get_headers self,
                 http_params = None, http_json = None\<rparr>
      in case transport req of
           Inl e \<Rightarrow> ([req], Inl e)
         | Inr response \<Rightarrow>
             ([req],
              if resp_status_code response \<noteq> 204 then
                (case async_handle_response response of Inl e \<Rightarrow> Inl e | Inr data \<Rightarrow> Inr ())
              else Inr ()))"

definition async_get_contract_stats ::
  "'dt conversions \<Rightarrow> client \<Rightarrow> transport \<Rightarrow> string \<Rightarrow> request list \<times> (exn + 'dt ContractStats)" where
  "async_get_contract_stats C self transport contract_id =
     (let url = urljoin (base_url self) (''/api/contracts/'' @ contract_id @ ''/stats/'');
          req = \<lparr>http_method = GET, http_url = url, http_headers = async_get_headers self,
                 http_params = None, http_json = None\<rparr>
      in case transport req of
           Inl e \<Rightarrow> ([req], Inl e)
         | Inr response \<Rightarrow>
             ([req],
              case async_handle_response response of
                Inl e \<Rightarrow> Inl e
              | Inr data \<Rightarrow> ContractStats_validate C data))"

definition async_get_events ::
  "'dt conversions \<Rightarrow> client \<Rightarrow> transport \<Rightarrow> string option \<Rightarrow> string option \<Rightarrow> int option \<Rightarrow>
   int option \<Rightarrow> int option \<Rightarrow> string option \<Rightarrow> string \<Rightarrow> int \<Rightarrow> int \<Rightarrow>
   request list \<times> (exn + 'dt ContractEvent PaginatedResponse)" where
  "async_get_events C self transport contract_id event_type ledger ledger_min ledger_max
       validation_status ordering' page page_size =
     (let req = async_get_events_request self contract_id event_type ledger ledger_min ledger_max
                  validation_status ordering' page page_size
      in case transport req of
           Inl e \<Rightarrow> ([req], Inl e)
         | Inr response \<Rightarrow>
             ([req],
              case async_handle_response response of
                Inl e \<Rightarrow> Inl e
              | Inr data \<Rightarrow> PaginatedResponse_validate C (ContractEvent_validate C) data))"

definition async_get_event ::
  "'dt conversions \<Rightarrow> client \<Rightarrow> transport \<Rightarrow> int \<Rightarrow> request list \<times> (exn + 'dt ContractEvent)" where
  "async_get_event C self transport event_id =
     (let url = urljoin (base_url self) (''/api/events/'' @ int_str event_id @ ''/'');
          req = \<lparr>http_method = GET, http_url = url, http_headers = async_get_headers self,
                 http_params = None, http_json = None\<rparr>
      in case transport req of
           Inl e \<Rightarrow> ([req], Inl e)
         | Inr response \<Rightarrow>
             ([req],
              case async_handle_response response of
                Inl e \<Rightarrow> Inl e
              | Inr data \<Rightarrow> ContractEvent_validate C data))"

definition async_record_event ::
  "client \<Rightarrow> transport \<Rightarrow> string \<Rightarrow> string \<Rightarrow> string \<Rightarrow> request list \<times> (exn + RecordEventResponse)" where
  "async_record_event self transport contract_id event_type payload_hash =
     (let url = urljoin (base_url self) ''/api/record-event/'' in
      case RecordEventRequest_init contract_id event_type payload_hash of
        Inl e \<Rightarrow> ([], Inl e)
      | Inr request \<Rightarrow>
          (let req = \<lparr>http_method = POST, http_url = url, http_headers = async_get_headers self,
                      http_params = None, http_json = Some (model_dump request)\<rparr>
           in case transport req of
                Inl e \<Rightarrow> ([req], Inl e)
              | Inr response \<Rightarrow>
                  ([req],
                   case async_handle_response response of
                     Inl e \<Rightarrow> Inl e
                   | Inr data \<Rightarrow> RecordEventResponse_validate data)))"

definition async_get_webhooks ::
  "'dt conversions \<Rightarrow> client \<Rightarrow> transport \<Rightarrow> int \<Rightarrow> int \<Rightarrow>
   request list \<times> (exn + 'dt WebhookSubscription PaginatedResponse)" where
  "async_get_webhooks C self transport page page_size =
     (let params = [(''page'', JInt page), (''page_size'', JInt page_size)];
          url = urljoin (base_url self) ''/api/webhooks/'';
          req = \<lparr>http_method = GET, http_url = url, http_headers = async_get_headers self,
                 http_params = Some params, http_json = None\<rparr>
      in case transport req of
           Inl e \<Rightarrow> ([req], Inl e)
         | Inr response \<Rightarrow>
             ([req],
              case async_handle_response response of
                Inl e \<Rightarrow> Inl e
              | Inr data \<Rightarrow> PaginatedResponse_validate C (WebhookSubscription_validate C) data))"

definition async_get_webhook ::
  "'dt conversions \<Rightarrow> client \<Rightarrow> transport \<Rightarrow> int \<Rightarrow> request list \<times> (exn + 'dt WebhookSubscription)" where
  "async_get_webhook C self transport webhook_id =
     (let url = urljoin (base_url self) (''/api/webhooks/'' @ int_str webhook_id @ ''/'');
          req = \<lparr>http_method = GET, http_url = url, http_headers = async_get_headers self,
                 http_params = None, http_json = None\<rparr>
      in case transport req of
           Inl e \<Rightarrow> ([req], Inl e)
         | Inr response \<Rightarrow>
             ([req],
              case async_handle_response response of
                Inl e \<Rightarrow> Inl e
              | Inr data \<Rightarrow> WebhookSubscription_validate C data))"

definition async_create_webhook ::
  "'dt conversions \<Rightarrow> client \<Rightarrow> transport \<Rightarrow> int \<Rightarrow> string \<Rightarrow> string \<Rightarrow>
   request list \<times> (exn + 'dt WebhookSubscription)" where
  "async_create_webhook C self transport contract_id target_url event_type =
     (let url = urljoin (base_url self) ''/api/webhooks/'';
          payload = [(''contract'', JInt contract_id), (''target_url'', JStr target_url),
                     (''event_type'', JStr event_type)];
          req = \<lparr>http_method = POST, http_url = url, http_headers = async_get_headers self,
                 http_params = None, http_json = Some (JObj payload)\<rparr>
      in case transport req of
           Inl e \<Rightarrow> ([req], Inl e)
         | Inr response \<Rightarrow>
             ([req],
              case async_handle_response response of
                Inl e \<Rightarrow> Inl e
              | Inr data \<Rightarrow> WebhookSubscription_validate C data))"

definition async_update_webhook ::
  "'dt conversions \<Rightarrow> client \<Rightarrow> transport \<Rightarrow> int \<Rightarrow> string option \<Rightarrow> string option \<Rightarrow>
   bool option \<Rightarrow> request list \<times> (exn + 'dt WebhookSubscription)" where
  "async_update_webhook C self transport webhook_id target_url event_type is_active =
     (let url = urljoin (base_url self) (''/api/webhooks/'' @ int_str webhook_id @ ''/'');
          payload = [];
          payload = (case target_url of
                       Some s \<Rightarrow> AList.update ''target_url'' (JStr s) payload
                     | None \<Rightarrow> payload);
          payload = (case event_type of
                       Some s \<Rightarrow> AList.update ''event_type'' (JStr s) payload
                     | None \<Rightarrow> payload);
          payload = (case is_active of
                       Some b \<Rightarrow> AList.update ''is_active'' (JBool b) payload
                     | None \<Rightarrow> payload);
          req = \<lparr>http_method = PATCH, http_url = url, http_headers = async_get_headers self,
                 http_params = None, http_json = Some (JObj payload)\<rparr>
      in case transport req of
           Inl e \<Rightarrow> ([req], Inl e)
         | Inr response \<Rightarrow>
             ([req],
              case async_handle_response response of
                Inl e \<Rightarrow> Inl e
              | Inr data \<Rightarrow> WebhookSubscription_validate C data))"

definition async_test_webhook ::
  "client \<Rightarrow> transport \<Rightarrow> int \<Rightarrow> request list \<times> (exn + json)" where
  "async_test_webhook self transport webhook_id =
     (let url = urljoin (base_url self) (''/api/webhooks/'' @ int_str webhook_id @ ''/test/'');
          req = \<lparr>http_method = POST, http_url = url, http_headers = async_get_headers self,
                 http_params = None, http_json = None\<rparr>
      in case transport req of
           Inl e \<Rightarrow> ([req], Inl e)
         | Inr response \<Rightarrow> ([req], async_handle_response response))"

section \<open>The status table and example data\<close>

text \<open>
  The table of section 4.2 of the specification, written from its words: 400 is a
  validation error, 401 and 403 an authentication error, 404 not found, 429 a rate
  limit, every other status the general API error.
\<close>

definition spec_status_kind :: "int \<Rightarrow> api_error_class" where
  "spec_status_kind sc =
     (if sc = 400 then SoroScanValidationError
      else if sc = 401 \<or> sc = 403 then SoroScanAuthError
      else if sc = 404 then SoroScanNotFoundError
      else if sc = 429 then SoroScanRateLimitError
      else SoroScanAPIError)"

text \<open>
  A transport that answers every request as the server of \<^verbatim>\<open>test_record_event\<close> does:
  202 with a submitted transaction.
\<close>

definition accepting :: transport where
  "accepting req =
     Inr \<lparr>resp_status_code = 202,
          resp_text = [],
          resp_json = Some (JObj [(''status'', JStr ''submitted''),
                                  (''tx_hash'', JStr ''tx123456''),
                                  (''transaction_status'', JStr ''pending''),
                                  (''error'', JNull)])\<rparr>"

text \<open>The \<^verbatim>\<open>sample_event_data\<close> fixture of \<^verbatim>\<open>tests/conftest.py\<close>.\<close>

definition sample_event_data :: dict where
  "sample_event_data =
     [(''id'', JInt 1),
      (''contract_id'', JStr ''CCAAA111222333444555666777888999AAABBBCCCDDDEEEFFF''),
      (''contract_name'', JStr ''Test Token''),
      (''event_type'', JStr ''transfer''),
      (''payload'', JObj [(''from'', JStr ''GAAA...''), (''to'', JStr ''GBBB...''),
                          (''amount'', JStr ''1000'')]),
      (''payload_hash'', JStr ''abc123def456''),
      (''ledger'', JInt 100000),
      (''event_index'', JInt 0),
      (''timestamp'', JStr ''2026-01-01T12:00:00Z''),
      (''tx_hash'', JStr ''tx123456''),
      (''schema_version'', JInt 1),
      (''validation_status'', JStr ''passed'')]"

section \<open>Response handling\<close>

lemma handle_response_success:
  "resp_status_code r = 200 \<or> resp_status_code r = 201 \<or> resp_status_code r = 202 \<Longrightarrow>
   handle_response r = response_json r"
  by (auto simp: handle_response_def)

text \<open>
  With a body that does not parse, or that parses to a dict, every other status raises
  the class of the table, with the status and the dict.
\<close>

lemma handle_response_raises:
  assumes "resp_status_code r \<notin> {200, 201, 202}"
    and "resp_json r = None \<and> d = [] \<or> resp_json r = Some (JObj d)"
  shows "handle_response r = Inl (Raise
     \<lparr>cls = spec_status_kind (resp_status_code r),
      message = py_or (dict_get d ''detail'') (py_or (dict_get d ''error'') (JStr (resp_text r))),
      status_code = resp_status_code r,
      response_data = JObj d\<rparr>)"
  using assms
  by (auto simp: handle_response_def response_json_def spec_status_kind_def py_or_def
      SoroScanAPIError_init_def dict_get_def)

text \<open>
  A body that parses to anything but a dict has no \<^verbatim>\<open>get\<close>: the call raises
  \<^verbatim>\<open>AttributeError\<close> before any SDK error is built.
\<close>

lemma handle_response_not_a_dict:
  assumes "resp_status_code r \<notin> {200, 201, 202}"
    and "resp_json r = Some j" and "\<not> is_dict j"
  shows "handle_response r = Inl AttributeError"
  using assms by (cases j) (auto simp: handle_response_def response_json_def)

text \<open>
  C1 (the status table: 400, 401, 403, 404, 429 and 500 raise the class of the table,
  with the status code of the response). The code misses it for a body that is valid
  JSON but not an object. A 400 whose body is the JSON list
  \<^verbatim>\<open>["Invalid contract_id"]\<close> raises \<^verbatim>\<open>AttributeError\<close>, not
  \<^verbatim>\<open>SoroScanValidationError\<close>: \<^verbatim>\<open>error_data\<close> is the list, and a list has no
  \<^verbatim>\<open>get\<close>.
\<close>

theorem status_400_list_body_attribute_error:
  \<open>handle_response
     \<lparr>resp_status_code = 400, resp_text = ''["Invalid contract_id"]'',
      resp_json = Some (JArr [JStr ''Invalid contract_id''])\<rparr>
   = Inl AttributeError\<close>
  by (simp add: handle_response_def response_json_def)

text \<open>
  C3, as the code has it: for a status other than 200, 201 and 202, a body that does
  not parse raises the SDK error with the raw text as message and the empty dict as
  response data; a body that parses to a dict raises it with the dict as response
  data, and as message the value of \<^verbatim>\<open>detail\<close> when that value is truthy, else the
  value of \<^verbatim>\<open>error\<close> when that value is truthy, else the raw text; and a 404 whose
  body does not parse raises \<^verbatim>\<open>SoroScanNotFoundError\<close>.
\<close>

theorem handle_response_message:
  assumes "resp_status_code r \<notin> {200, 201, 202}"
  shows "(resp_json r = None \<longrightarrow>
            (\<exists>c. handle_response r = Inl (Raise
               \<lparr>cls = c, message = JStr (resp_text r),
                status_code = resp_status_code r, response_data = JObj []\<rparr>))) \<and>
         (\<forall>d. resp_json r = Some (JObj d) \<longrightarrow>
            (\<exists>c. handle_response r = Inl (Raise
               \<lparr>cls = c,
                message = (if truthy (dict_get d ''detail'') then dict_get d ''detail''
                           else if truthy (dict_get d ''error'') then dict_get d ''error''
                           else JStr (resp_text r)),
                status_code = resp_status_code r, response_data = JObj d\<rparr>))) \<and>
         (resp_status_code r = 404 \<and> resp_json r = None \<longrightarrow>
            handle_response r = Inl (Raise
               \<lparr>cls = SoroScanNotFoundError, message = JStr (resp_text r),
                status_code = 404, response_data = JObj []\<rparr>))"
proof (intro conjI impI allI)
  assume "resp_json r = None"
  with assms have "handle_response r = Inl (Raise
     \<lparr>cls = spec_status_kind (resp_status_code r),
      message = py_or (dict_get [] ''detail'') (py_or (dict_get [] ''error'') (JStr (resp_text r))),
      status_code = resp_status_code r, response_data = JObj []\<rparr>)"
    by (intro handle_response_raises) auto
  then show "\<exists>c. handle_response r = Inl (Raise
               \<lparr>cls = c, message = JStr (resp_text r),
                status_code = resp_status_code r, response_data = JObj []\<rparr>)"
    by (simp add: py_or_def dict_get_def)
next
  fix d assume "resp_json r = Some (JObj d)"
  with assms have "handle_response r = Inl (Raise
     \<lparr>cls = spec_status_kind (resp_status_code r),
      message = py_or (dict_get d ''detail'') (py_or (dict_get d ''error'') (JStr (resp_text r))),
      status_code = resp_status_code r, response_data = JObj d\<rparr>)"
    by (intro handle_response_raises) auto
  then show "\<exists>c. handle_response r = Inl (Raise
               \<lparr>cls = c,
                message = (if truthy (dict_get d ''detail'') then dict_get d ''detail''
                           else if truthy (dict_get d ''error'') then dict_get d ''error''
                           else JStr (resp_text r)),
                status_code = resp_status_code r, response_data = JObj d\<rparr>)"
    by (simp add: py_or_def)
next
  assume "resp_status_code r = 404 \<and> resp_json r = None"
  then show "handle_response r = Inl (Raise
               \<lparr>cls = SoroScanNotFoundError, message = JStr (resp_text r),
                status_code = 404, response_data = JObj []\<rparr>)"
    by (simp add: handle_response_def response_json_def py_or_def dict_get_def
        SoroScanAPIError_init_def)
qed

text \<open>
  The theorem at a 404 with an HTML body and at the 400 of \<^verbatim>\<open>test_error_handling_400\<close>.
\<close>

theorem handle_response_message_witness:
  \<open>handle_response
     \<lparr>resp_status_code = 404, resp_text = ''<h1>Not Found</h1>'', resp_json = None\<rparr>
     = Inl (Raise \<lparr>cls = SoroScanNotFoundError, message = JStr ''<h1>Not Found</h1>'',
                   status_code = 404, response_data = JObj []\<rparr>) \<and>
   handle_response
     \<lparr>resp_status_code = 400, resp_text = ''{"error": "Invalid contract_id"}'',
      resp_json = Some (JObj [(''error'', JStr ''Invalid contract_id'')])\<rparr>
     = Inl (Raise \<lparr>cls = SoroScanValidationError, message = JStr ''Invalid contract_id'',
                   status_code = 400,
                   response_data = JObj [(''error'', JStr ''Invalid contract_id'')]\<rparr>)\<close>
  using
    handle_response_message
      [of \<open>\<lparr>resp_status_code = 404, resp_text = ''<h1>Not Found</h1>'', resp_json = None\<rparr>\<close>]
    handle_response_message
      [of \<open>\<lparr>resp_status_code = 400, resp_text = ''{"error": "Invalid contract_id"}'',
            resp_json = Some (JObj [(''error'', JStr ''Invalid contract_id'')])\<rparr>\<close>]
  by (simp add: handle_response_def response_json_def py_or_def dict_get_def
        SoroScanAPIError_init_def)

text \<open>
  C3 as stated fails where the key \<^verbatim>\<open>detail\<close> is present with a falsy value: the
  message is then not the \<^verbatim>\<open>detail\<close> field but the \<^verbatim>\<open>error\<close> field.
\<close>

theorem detail_present_but_empty_counterexample:
  \<open>handle_response
     \<lparr>resp_status_code = 404, resp_text = ''{"detail": "", "error": "gone"}'',
      resp_json = Some (JObj [(''detail'', JStr ''''), (''error'', JStr ''gone'')])\<rparr>
   = Inl (Raise \<lparr>cls = SoroScanNotFoundError, message = JStr ''gone'', status_code = 404,
                 response_data = JObj [(''detail'', JStr ''''), (''error'', JStr ''gone'')]\<rparr>)\<close>
  by (simp add: handle_response_def response_json_def dict_get_def SoroScanAPIError_init_def
      py_or_def)

text \<open>The delete operations end on a 204 without reading the body.\<close>

lemma delete_contract_204:
  assumes "transport \<lparr>http_method = DELETE,
       http_url = urljoin (base_url self) (''/api/contracts/'' @ contract_id @ ''/''),
       http_headers = get_headers self, http_params = None, http_json = None\<rparr> = Inr response"
    and "resp_status_code response = 204"
  shows "snd (delete_contract self transport contract_id) = Inr ()"
  using assms by (simp add: delete_contract_def)

lemma delete_webhook_204:
  assumes "transport \<lparr>http_method = DELETE,
       http_url = urljoin (base_url self) (''/api/webhooks/'' @ int_str webhook_id @ ''/''),
       http_headers = get_headers self, http_params = None, http_json = None\<rparr> = Inr response"
    and "resp_status_code response = 204"
  shows "snd (delete_webhook self transport webhook_id) = Inr ()"
  using assms by (simp add: delete_webhook_def)

text \<open>
  C4 (200, 201 and 202 return the parsed body, every other status raises an SDK error,
  204 ends a delete). The first and the last part hold, as the lemmas on the success
  statuses and on the delete operations show. The middle part is missed for a body that
  is valid JSON but not an object: a 500 whose body is the JSON string
  \<^verbatim>\<open>"Internal Server Error"\<close> raises \<^verbatim>\<open>AttributeError\<close>, which is no SDK error.
\<close>

theorem status_500_string_body_attribute_error:
  \<open>handle_response
     \<lparr>resp_status_code = 500, resp_text = ''"Internal Server Error"'',
      resp_json = Some (JStr ''Internal Server Error'')\<rparr>
   = Inl AttributeError\<close>
  by (simp add: handle_response_def response_json_def)

lemma async_handle_response_eq: "async_handle_response = handle_response"
  by (rule ext) (simp add: async_handle_response_def handle_response_def)

lemma async_get_headers_eq: "async_get_headers = get_headers"
  by (rule ext) (simp add: async_get_headers_def get_headers_def)

lemma async_get_contracts_params_eq: "async_get_contracts_params = get_contracts_params"
  by (intro ext) (simp add: async_get_contracts_params_def get_contracts_params_def)

lemma async_get_events_params_eq: "async_get_events_params = get_events_params"
  by (intro ext) (simp only: async_get_events_params_def get_events_params_def)

lemma async_get_contracts_request_eq: "async_get_contracts_request = get_contracts_request"
  by (intro ext)
    (simp only: async_get_contracts_request_def get_contracts_request_def
      async_get_headers_eq async_get_contracts_params_eq)

lemma async_get_events_request_eq: "async_get_events_request = get_events_request"
  by (intro ext)
    (simp only: async_get_events_request_def get_events_request_def
      async_get_headers_eq async_get_events_params_eq)

lemmas async_eqs =
  async_handle_response_eq async_get_headers_eq
  async_get_contracts_request_eq async_get_events_request_eq

text \<open>
  C9: every function of the asynchronous client gives, for the same configuration,
  transport and arguments, what the function of the synchronous client gives: the same
  requests sent and the same value or error, for each of the fifteen operations, for the
  response handling, the headers, the two parameter builders and the constructor. A call
  is taken on its own here, with \<^verbatim>\<open>await\<close> as the call of the transport.
\<close>

theorem async_same_as_sync:
  "async_handle_response r = handle_response r \<and>
   async_get_headers self = get_headers self \<and>
   AsyncSoroScanClient_init url key t = SoroScanClient_init url key t \<and>
   async_get_contracts_params is_active search page page_size =
     get_contracts_params is_active search page page_size \<and>
   async_get_events_params cid etype ledger ledger_min ledger_max vstatus ordering' page page_size =
     get_events_params cid etype ledger ledger_min ledger_max vstatus ordering' page page_size \<and>
   async_get_contracts C self transport is_active search page page_size =
     get_contracts C self transport is_active search page page_size \<and>
   async_get_contract C self transport contract_id = get_contract C self transport contract_id \<and>
   async_create_contract C self transport contract_id name description abi_schema =
     create_contract C self transport contract_id name description abi_schema \<and>
   async_update_contract C self transport contract_id new_name new_description is_active =
     update_contract C self transport contract_id new_name new_description is_active \<and>
   async_delete_contract self transport contract_id = delete_contract self transport contract_id \<and>
   async_get_contract_stats C self transport contract_id =
     get_contract_stats C self transport contract_id \<and>
   async_get_events C self transport cid etype ledger ledger_min ledger_max vstatus ordering'
       page page_size =
     get_events C self transport cid etype ledger ledger_min ledger_max vstatus ordering'
       page page_size \<and>
   async_get_event C self transport event_id = get_event C self transport event_id \<and>
   async_record_event self transport contract_id event_type payload_hash =
     record_event self transport contract_id event_type payload_hash \<and>
   async_get_webhooks C self transport page page_size =
     get_webhooks C self transport page page_size \<and>
   async_get_webhook C self transport webhook_id = get_webhook C self transport webhook_id \<and>
   async_create_webhook C self transport contract target_url event_type =
     create_webhook C self transport contract target_url event_type \<and>
   async_update_webhook C self transport webhook_id new_target_url new_event_type is_active =
     update_webhook C self transport webhook_id new_target_url new_event_type is_active \<and>
   async_delete_webhook self transport webhook_id = delete_webhook self transport webhook_id \<and>
   async_test_webhook self transport webhook_id = test_webhook self transport webhook_id"
proof (intro conjI)
  show "async_handle_response r = handle_response r"
    by (simp only: async_handle_response_eq)
  show "async_get_headers self = get_headers self"
    by (simp only: async_get_headers_eq)
  show "AsyncSoroScanClient_init url key t = SoroScanClient_init url key t"
    by (simp only: AsyncSoroScanClient_init_def SoroScanClient_init_def)
  show "async_get_contracts_params is_active search page page_size =
     get_contracts_params is_active search page page_size"
    by (simp only: async_get_contracts_params_eq)
  show "async_get_events_params cid etype ledger ledger_min ledger_max vstatus ordering' page page_size =
     get_events_params cid etype ledger ledger_min ledger_max vstatus ordering' page page_size"
    by (simp only: async_get_events_params_eq)
  show "async_get_contracts C self transport is_active search page page_size =
     get_contracts C self transport is_active search page page_size"
    by (simp only: async_get_contracts_def get_contracts_def async_eqs)
  show "async_get_contract C self transport contract_id = get_contract C self transport contract_id"
    by (simp only: async_get_contract_def get_contract_def async_eqs)
  show "async_create_contract C self transport contract_id name description abi_schema =
     create_contract C self transport contract_id name description abi_schema"
    by (simp only: async_create_contract_def create_contract_def async_eqs)
  show "async_update_contract C self transport contract_id new_name new_description is_active =
     update_contract C self transport contract_id new_name new_description is_active"
    by (simp only: async_update_contract_def update_contract_def async_eqs)
  show "async_delete_contract self transport contract_id = delete_contract self transport contract_id"
    by (simp only: async_delete_contract_def delete_contract_def async_eqs)
  show "async_get_contract_stats C self transport contract_id =
     get_contract_stats C self transport contract_id"
    by (simp only: async_get_contract_stats_def get_contract_stats_def async_eqs)
  show "async_get_events C self transport cid etype ledger ledger_min ledger_max vstatus ordering'
       page page_size =
     get_events C self transport cid etype ledger ledger_min ledger_max vstatus ordering'
       page page_size"
    by (simp only: async_get_events_def get_events_def async_eqs)
  show "async_get_event C self transport event_id = get_event C self transport event_id"
    by (simp only: async_get_event_def get_event_def async_eqs)
  show "async_record_event self transport contract_id event_type payload_hash =
     record_event self transport contract_id event_type payload_hash"
    by (simp only: async_record_event_def record_event_def async_eqs)
  show "async_get_webhooks C self transport page page_size =
     get_webhooks C self transport page page_size"
    by (simp only: async_get_webhooks_def get_webhooks_def async_eqs)
  show "async_get_webhook C self transport webhook_id = get_webhook C self transport webhook_id"
    by (simp only: async_get_webhook_def get_webhook_def async_eqs)
  show "async_create_webhook C self transport contract target_url event_type =
     create_webhook C self transport contract target_url event_type"
    by (simp only: async_create_webhook_def create_webhook_def async_eqs)
  show "async_update_webhook C self transport webhook_id new_target_url new_event_type is_active =
     update_webhook C self transport webhook_id new_target_url new_event_type is_active"
    by (simp only: async_update_webhook_def update_webhook_def async_eqs)
  show "async_delete_webhook self transport webhook_id = delete_webhook self transport webhook_id"
    by (simp only: async_delete_webhook_def delete_webhook_def async_eqs)
  show "async_test_webhook self transport webhook_id = test_webhook self transport webhook_id"
    by (simp only: async_test_webhook_def test_webhook_def async_eqs)
qed

section \<open>Exceptions and headers\<close>

text \<open>
  C10: built with \<^verbatim>\<open>response_data\<close> absent, \<^verbatim>\<open>None\<close> or a dict, as the signature
  of the constructor says, an SDK error holds a dict as response data; absent or
  \<^verbatim>\<open>None\<close> gives the empty dict.
\<close>

theorem response_data_is_dict:
  "(rd = JNull \<or> is_dict rd \<longrightarrow> is_dict (response_data (SoroScanAPIError_init c msg sc rd))) \<and>
   response_data (SoroScanAPIError_init c msg sc JNull) = JObj []"
  by (cases rd) (simp_all add: SoroScanAPIError_init_def py_or_def)

theorem response_data_is_dict_witness:
  "is_dict (response_data
     (SoroScanAPIError_init SoroScanNotFoundError (JStr ''Not found'') 404
        (JObj [(''detail'', JStr ''Not found'')]))) \<and>
   response_data (SoroScanAPIError_init SoroScanAPIError (JStr ''boom'') 500 JNull) = JObj []"
  using
    response_data_is_dict [of "JObj [(''detail'', JStr ''Not found'')]" SoroScanNotFoundError
      "JStr ''Not found''" 404]
    response_data_is_dict [of JNull SoroScanAPIError "JStr ''boom''" 500]
  by simp

text \<open>
  C7: the headers always carry \<^verbatim>\<open>Content-Type: application/json\<close>; they carry
  \<^verbatim>\<open>Authorization\<close> exactly when the client has an API key, a key being a string
  that is not empty, and its value is then \<^verbatim>\<open>Bearer\<close>, a space and the key.
\<close>

theorem get_headers_content_type_and_authorization:
  "map_of (get_headers self) ''Content-Type'' = Some ''application/json'' \<and>
   (map_of (get_headers self) ''Authorization'' \<noteq> None) =
     (api_key self \<noteq> None \<and> api_key self \<noteq> Some []) \<and>
   map_of (get_headers self) ''Authorization'' =
     (case api_key self of
        None \<Rightarrow> None
      | Some k \<Rightarrow> if k = [] then None else Some (''Bearer '' @ k))"
  by (simp add: get_headers_def split: option.splits)

section \<open>Query parameters\<close>

lemma str_filter_other:
  "k' \<noteq> k \<Longrightarrow>
   map_of (case x of Some s \<Rightarrow> if s \<noteq> [] then AList.update k (JStr s) p else p | None \<Rightarrow> p) k'
     = map_of p k'"
  by (simp add: update_conv' split: option.splits)

lemma str_filter_same:
  "map_of p k = None \<Longrightarrow>
   map_of (case x of Some s \<Rightarrow> if s \<noteq> [] then AList.update k (JStr s) p else p | None \<Rightarrow> p) k
     = (case x of None \<Rightarrow> None | Some s \<Rightarrow> if s = [] then None else Some (JStr s))"
  by (simp add: update_conv' split: option.splits)

lemma value_filter_other:
  "k' \<noteq> k \<Longrightarrow>
   map_of (case x of Some n \<Rightarrow> AList.update k (f n) p | None \<Rightarrow> p) k' = map_of p k'"
  by (simp add: update_conv' split: option.splits)

lemma value_filter_same:
  "map_of p k = None \<Longrightarrow>
   map_of (case x of Some n \<Rightarrow> AList.update k (f n) p | None \<Rightarrow> p) k = map_option f x"
  by (simp add: update_conv' split: option.splits)

lemmas filter_lookup = str_filter_other str_filter_same value_filter_other value_filter_same

lemma get_events_params_lookup:
  "map_of (get_events_params contract_id event_type ledger ledger_min ledger_max
       validation_status ordering' page page_size) ''contract__contract_id'' =
     (case contract_id of None \<Rightarrow> None | Some s \<Rightarrow> if s = [] then None else Some (JStr s))"
  "map_of (get_events_params contract_id event_type ledger ledger_min ledger_max
       validation_status ordering' page page_size) ''event_type'' =
     (case event_type of None \<Rightarrow> None | Some s \<Rightarrow> if s = [] then None else Some (JStr s))"
  "map_of (get_events_params contract_id event_type ledger ledger_min ledger_max
       validation_status ordering' page page_size) ''ledger'' = map_option JInt ledger"
  "map_of (get_events_params contract_id event_type ledger ledger_min ledger_max
       validation_status ordering' page page_size) ''ledger__gte'' = map_option JInt ledger_min"
  "map_of (get_events_params contract_id event_type ledger ledger_min ledger_max
       validation_status ordering' page page_size) ''ledger__lte'' = map_option JInt ledger_max"
  "map_of (get_events_params contract_id event_type ledger ledger_min ledger_max
       validation_status ordering' page page_size) ''validation_status'' =
     (case validation_status of None \<Rightarrow> None | Some s \<Rightarrow> if s = [] then None else Some (JStr s))"
  by (simp_all add: get_events_params_def Let_def filter_lookup)

lemma get_contracts_params_lookup:
  "map_of (get_contracts_params is_active search page page_size) ''is_active'' =
     map_option JBool is_active"
  "map_of (get_contracts_params is_active search page page_size) ''search'' =
     (case search of None \<Rightarrow> None | Some s \<Rightarrow> if s = [] then None else Some (JStr s))"
  by (simp_all add: get_contracts_params_def Let_def filter_lookup)

text \<open>
  C2, as the code has it: in the query parameters of \<^verbatim>\<open>get_events\<close> and
  \<^verbatim>\<open>get_contracts\<close> a filter that is \<^verbatim>\<open>None\<close> has no key; an integer or boolean
  filter that is given has its key with its value, 0 and \<^verbatim>\<open>False\<close> included; a string
  filter that is given has its key exactly when the string is not empty.
\<close>

theorem filter_params_presence:
  "(let params = map_of (get_events_params contract_id event_type ledger ledger_min
                   ledger_max validation_status ordering' page page_size)
    in params ''contract__contract_id'' =
         (case contract_id of None \<Rightarrow> None | Some s \<Rightarrow> if s = [] then None else Some (JStr s)) \<and>
       params ''event_type'' =
         (case event_type of None \<Rightarrow> None | Some s \<Rightarrow> if s = [] then None else Some (JStr s)) \<and>
       params ''ledger'' = map_option JInt ledger \<and>
       params ''ledger__gte'' = map_option JInt ledger_min \<and>
       params ''ledger__lte'' = map_option JInt ledger_max \<and>
       params ''validation_status'' =
         (case validation_status of None \<Rightarrow> None
          | Some s \<Rightarrow> if s = [] then None else Some (JStr s))) \<and>
   (let params = map_of (get_contracts_params is_active search page' page_size')
    in params ''is_active'' = map_option JBool is_active \<and>
       params ''search'' =
         (case search of None \<Rightarrow> None | Some s \<Rightarrow> if s = [] then None else Some (JStr s)))"
  unfolding Let_def
  by (intro conjI get_events_params_lookup get_contracts_params_lookup)

text \<open>
  C2 as stated fails for a string filter: \<^verbatim>\<open>get_events(contract_id="")\<close> sends no
  \<^verbatim>\<open>contract__contract_id\<close>, while \<^verbatim>\<open>ledger=0\<close> is sent.
\<close>

theorem empty_string_filter_omitted_counterexample:
  "map_of (get_events_params (Some []) None (Some 0) None None None ''-timestamp'' 1 50)
     ''contract__contract_id'' = None \<and>
   map_of (get_events_params (Some []) None (Some 0) None None None ''-timestamp'' 1 50)
     ''ledger'' = Some (JInt 0) \<and>
   get_events_params (Some []) None (Some 0) None None None ''-timestamp'' 1 50 =
     [(''page'', JInt 1), (''page_size'', JInt 50), (''ordering'', JStr ''-timestamp''),
      (''ledger'', JInt 0)]"
  by (simp add: get_events_params_def)

section \<open>Decoding\<close>

lemma ap_Inr_iff: "ap f x = Inr y \<longleftrightarrow> (\<exists>g a. f = Inr g \<and> x = Inr a \<and> y = g a)"
  by (cases f; cases x) auto

lemma validated_Inr_iff: "validated x = Inr a \<longleftrightarrow> x = Inr a"
  by (cases x) (simp_all add: validated_def)

lemma default_field_absent: "map_of d k = None \<Longrightarrow> default_field d k dflt v = Inr dflt"
  by (simp add: default_field_def)

lemma required_field_update_other:
  "k \<noteq> k' \<Longrightarrow> required_field (AList.update k' j d) k v = required_field d k v"
  by (simp add: required_field_def update_conv')

lemma default_field_update_other:
  "k \<noteq> k' \<Longrightarrow> default_field (AList.update k' j d) k dflt v = default_field d k dflt v"
  by (simp add: default_field_def update_conv')

lemma default_field_str_update:
  "default_field (AList.update k (JStr s) d) k dflt str_validator = Inr s"
  by (simp add: default_field_def update_conv' str_validator_def)

lemma default_field_str_cases:
  "default_field d k dflt str_validator = Inr s \<Longrightarrow>
   (case map_of d k of None \<Rightarrow> s = dflt | Some j \<Rightarrow> j = JStr s)"
  by (auto simp: default_field_def str_validator_def split: option.splits json.splits)

text \<open>
  C5: whatever pydantic converts to \<^verbatim>\<open>int\<close>, \<^verbatim>\<open>bool\<close> and \<^verbatim>\<open>datetime\<close>, a
  decoded \<^verbatim>\<open>TrackedContract\<close> comes from a dict and has the empty description, the
  active flag set and the event count 0 where the dict has no such key; a decoded
  \<^verbatim>\<open>WebhookSubscription\<close> has the empty event type, the active flag set and the
  failure count 0 where the dict has no such key.
\<close>

theorem decode_defaults:
  "(TrackedContract_validate C data = Inr c \<longrightarrow>
      (\<exists>d. data = JObj d \<and>
        (map_of d ''description'' = None \<longrightarrow> tc_description c = []) \<and>
        (map_of d ''is_active'' = None \<longrightarrow> tc_is_active c = True) \<and>
        (map_of d ''event_count'' = None \<longrightarrow> tc_event_count c = 0))) \<and>
   (WebhookSubscription_validate C data' = Inr w \<longrightarrow>
      (\<exists>d. data' = JObj d \<and>
        (map_of d ''event_type'' = None \<longrightarrow> wh_event_type w = []) \<and>
        (map_of d ''is_active'' = None \<longrightarrow> wh_is_active w = True) \<and>
        (map_of d ''failure_count'' = None \<longrightarrow> wh_failure_count w = 0)))"
proof (intro conjI impI)
  assume a: "TrackedContract_validate C data = Inr c"
  then obtain d where d: "data = JObj d"
    by (cases data) (simp_all add: TrackedContract_validate_def)
  from a d show "\<exists>d. data = JObj d \<and>
        (map_of d ''description'' = None \<longrightarrow> tc_description c = []) \<and>
        (map_of d ''is_active'' = None \<longrightarrow> tc_is_active c = True) \<and>
        (map_of d ''event_count'' = None \<longrightarrow> tc_event_count c = 0)"
    by (auto simp: TrackedContract_validate_def validated_Inr_iff ap_Inr_iff
        TrackedContract.defs default_field_absent)
next
  assume a: "WebhookSubscription_validate C data' = Inr w"
  then obtain d where d: "data' = JObj d"
    by (cases data') (simp_all add: WebhookSubscription_validate_def)
  from a d show "\<exists>d. data' = JObj d \<and>
        (map_of d ''event_type'' = None \<longrightarrow> wh_event_type w = []) \<and>
        (map_of d ''is_active'' = None \<longrightarrow> wh_is_active w = True) \<and>
        (map_of d ''failure_count'' = None \<longrightarrow> wh_failure_count w = 0)"
    by (auto simp: WebhookSubscription_validate_def validated_Inr_iff ap_Inr_iff
        WebhookSubscription.defs default_field_absent)
qed

text \<open>
  The theorem at the \<^verbatim>\<open>minimal_data\<close> of \<^verbatim>\<open>test_model_default_values\<close> and at a
  webhook with its required fields only.
\<close>

theorem decode_defaults_witness:
  "TrackedContract_validate json_conversions
     (JObj [(''id'', JInt 1),
            (''contract_id'', JStr ''CCAAA111222333444555666777888999AAABBBCCCDDDEEEFFF''),
            (''name'', JStr ''Test''),
            (''created_at'', JStr ''2026-01-01T00:00:00Z''),
            (''updated_at'', JStr ''2026-01-01T00:00:00Z'')])
   = Inr \<lparr>tc_id = 1,
          tc_contract_id = ''CCAAA111222333444555666777888999AAABBBCCCDDDEEEFFF'',
          tc_name = ''Test'', tc_description = [], tc_abi_schema = None, tc_is_active = True,
          tc_last_indexed_ledger = None, tc_event_count = 0,
          tc_created_at = \<lparr>year = 2026, month = 1, day = 1, hour = 0, minute = 0, second = 0\<rparr>,
          tc_updated_at = \<lparr>year = 2026, month = 1, day = 1, hour = 0, minute = 0, second = 0\<rparr>\<rparr> \<and>
   WebhookSubscription_validate json_conversions
     (JObj [(''id'', JInt 1),
            (''contract'', JInt 1),
            (''contract_id'', JStr ''CCAAA111222333444555666777888999AAABBBCCCDDDEEEFFF''),
            (''target_url'', JStr ''https://example.com/webhook''),
            (''created_at'', JStr ''2026-01-01T00:00:00Z'')])
   = Inr \<lparr>wh_id = 1, wh_contract = 1,
          wh_contract_id = ''CCAAA111222333444555666777888999AAABBBCCCDDDEEEFFF'',
          wh_event_type = [], wh_target_url = ''https://example.com/webhook'',
          wh_is_active = True,
          wh_created_at = \<lparr>year = 2026, month = 1, day = 1, hour = 0, minute = 0, second = 0\<rparr>,
          wh_last_triggered = None, wh_failure_count = 0\<rparr>"
proof -
  let ?dc = "[(''id'', JInt 1),
            (''contract_id'', JStr ''CCAAA111222333444555666777888999AAABBBCCCDDDEEEFFF''),
            (''name'', JStr ''Test''),
            (''created_at'', JStr ''2026-01-01T00:00:00Z''),
            (''updated_at'', JStr ''2026-01-01T00:00:00Z'')]"
  let ?dw = "[(''id'', JInt 1),
            (''contract'', JInt 1),
            (''contract_id'', JStr ''CCAAA111222333444555666777888999AAABBBCCCDDDEEEFFF''),
            (''target_url'', JStr ''https://example.com/webhook''),
            (''created_at'', JStr ''2026-01-01T00:00:00Z'')]"
  let ?t = "\<lparr>year = 2026, month = 1, day = 1, hour = 0, minute = 0, second = 0\<rparr>"
  obtain c where c: "TrackedContract_validate json_conversions (JObj ?dc) = Inr c"
    and c1: "tc_id c = 1"
      "tc_contract_id c = ''CCAAA111222333444555666777888999AAABBBCCCDDDEEEFFF''"
      "tc_name c = ''Test''" "tc_abi_schema c = None" "tc_last_indexed_ledger c = None"
      "tc_created_at c = ?t" "tc_updated_at c = ?t"
    by (simp add: TrackedContract_validate_def validated_def required_field_def
        default_field_def json_conversions_def str_validator_def parse_datetime_def digit_def
        days_in_month_def TrackedContract.defs)
  obtain w where w: "WebhookSubscription_validate json_conversions (JObj ?dw) = Inr w"
    and w1: "wh_id w = 1" "wh_contract w = 1"
      "wh_contract_id w = ''CCAAA111222333444555666777888999AAABBBCCCDDDEEEFFF''"
      "wh_target_url w = ''https://example.com/webhook''"
      "wh_created_at w = ?t" "wh_last_triggered w = None"
    by (simp add: WebhookSubscription_validate_def validated_def required_field_def
        default_field_def json_conversions_def str_validator_def parse_datetime_def digit_def
        days_in_month_def WebhookSubscription.defs)
  from decode_defaults [of json_conversions "JObj ?dc" c "JObj ?dw" w] c w
  have "tc_description c = [] \<and> tc_is_active c = True \<and> tc_event_count c = 0"
    and "wh_event_type w = [] \<and> wh_is_active w = True \<and> wh_failure_count w = 0"
    by simp_all
  with c1 w1 have "c = \<lparr>tc_id = 1,
          tc_contract_id = ''CCAAA111222333444555666777888999AAABBBCCCDDDEEEFFF'',
          tc_name = ''Test'', tc_description = [], tc_abi_schema = None, tc_is_active = True,
          tc_last_indexed_ledger = None, tc_event_count = 0,
          tc_created_at = ?t, tc_updated_at = ?t\<rparr>"
    and "w = \<lparr>wh_id = 1, wh_contract = 1,
          wh_contract_id = ''CCAAA111222333444555666777888999AAABBBCCCDDDEEEFFF'',
          wh_event_type = [], wh_target_url = ''https://example.com/webhook'',
          wh_is_active = True, wh_created_at = ?t,
          wh_last_triggered = None, wh_failure_count = 0\<rparr>"
    by simp_all
  with c w show ?thesis by simp
qed

text \<open>
  C8, as the code has it: \<^verbatim>\<open>validation_status\<close> is a plain \<^verbatim>\<open>str\<close> field with the
  default \<^verbatim>\<open>"passed"\<close>. A decoded \<^verbatim>\<open>ContractEvent\<close> holds the string of the input
  when the key is there and \<^verbatim>\<open>"passed"\<close> when it is not, and an input that decodes
  still decodes, to the same event but for this field, when its
  \<^verbatim>\<open>validation_status\<close> is set to any string whatever.
\<close>

theorem validation_status_any_string:
  assumes "ContractEvent_validate C (JObj d) = Inr e"
  shows "(case map_of d ''validation_status'' of
            None \<Rightarrow> ev_validation_status e = ''passed''
          | Some j \<Rightarrow> j = JStr (ev_validation_status e)) \<and>
         (\<forall>s. ContractEvent_validate C (JObj (AList.update ''validation_status'' (JStr s) d))
                = Inr (e\<lparr>ev_validation_status := s\<rparr>))"
proof
  from assms obtain f a where
    f: "ap (ap (ap (ap (ap (ap (ap (ap (ap (ap (ap (Inr ContractEvent.make)
            (required_field d ''id'' (to_int C)))
            (required_field d ''contract_id'' str_validator))
            (required_field d ''contract_name'' str_validator))
            (required_field d ''event_type'' str_validator))
            (required_field d ''payload'' dict_validator))
            (required_field d ''payload_hash'' str_validator))
            (required_field d ''ledger'' (to_int C)))
            (default_field d ''event_index'' 0 (to_int C)))
            (required_field d ''timestamp'' (to_datetime C)))
            (required_field d ''tx_hash'' str_validator))
            (default_field d ''schema_version'' None (nullable (to_int C))) = Inr f"
    and a: "default_field d ''validation_status'' ''passed'' str_validator = Inr a"
    and e: "e = f a"
    unfolding ContractEvent_validate_def by (auto simp: validated_Inr_iff ap_Inr_iff [of _ _ e])
  from f have "\<exists>a1 a2 a3 a4 a5 a6 a7 a8 a9 a10 a11.
      f = ContractEvent.make a1 a2 a3 a4 a5 a6 a7 a8 a9 a10 a11"
    by (auto simp: ap_Inr_iff) (intro exI, rule refl)
  then have sel: "ev_validation_status (f s) = s"
    and upd: "(f a)\<lparr>ev_validation_status := s\<rparr> = f s" for s
    by (auto simp: ContractEvent.defs)
  from default_field_str_cases [OF a] e sel
  show "case map_of d ''validation_status'' of
            None \<Rightarrow> ev_validation_status e = ''passed''
          | Some j \<Rightarrow> j = JStr (ev_validation_status e)"
    by (auto split: option.splits)
  show "\<forall>s. ContractEvent_validate C (JObj (AList.update ''validation_status'' (JStr s) d))
                = Inr (e\<lparr>ev_validation_status := s\<rparr>)"
    using f e upd
    by (simp add: ContractEvent_validate_def required_field_update_other
        default_field_update_other default_field_str_update validated_def)
qed

lemma sample_event_decodes:
  "ContractEvent_validate json_conversions (JObj sample_event_data)
   = Inr \<lparr>ev_id = 1,
          ev_contract_id = ''CCAAA111222333444555666777888999AAABBBCCCDDDEEEFFF'',
          ev_contract_name = ''Test Token'', ev_event_type = ''transfer'',
          ev_payload = [(''from'', JStr ''GAAA...''), (''to'', JStr ''GBBB...''),
                        (''amount'', JStr ''1000'')],
          ev_payload_hash = ''abc123def456'',
          ev_ledger = 100000, ev_event_index = 0,
          ev_timestamp = \<lparr>year = 2026, month = 1, day = 1, hour = 12, minute = 0, second = 0\<rparr>,
          ev_tx_hash = ''tx123456'', ev_schema_version = Some 1,
          ev_validation_status = ''passed''\<rparr>"
  by (simp add: sample_event_data_def ContractEvent_validate_def validated_def
      required_field_def default_field_def json_conversions_def str_validator_def
      dict_validator_def nullable_def parse_datetime_def digit_def days_in_month_def
      ContractEvent.defs)

text \<open>
  The theorem at the event of the tests: it decodes with the status \<^verbatim>\<open>"passed"\<close>,
  and with the status replaced by \<^verbatim>\<open>"failed"\<close>.
\<close>

theorem validation_status_any_string_witness:
  "ContractEvent_validate json_conversions
     (JObj (AList.update ''validation_status'' (JStr ''failed'') sample_event_data))
   = Inr \<lparr>ev_id = 1,
          ev_contract_id = ''CCAAA111222333444555666777888999AAABBBCCCDDDEEEFFF'',
          ev_contract_name = ''Test Token'', ev_event_type = ''transfer'',
          ev_payload = [(''from'', JStr ''GAAA...''), (''to'', JStr ''GBBB...''),
                        (''amount'', JStr ''1000'')],
          ev_payload_hash = ''abc123def456'',
          ev_ledger = 100000, ev_event_index = 0,
          ev_timestamp = \<lparr>year = 2026, month = 1, day = 1, hour = 12, minute = 0, second = 0\<rparr>,
          ev_tx_hash = ''tx123456'', ev_schema_version = Some 1,
          ev_validation_status = ''failed''\<rparr>"
  using validation_status_any_string [OF sample_event_decodes] by simp

text \<open>
  C8 as stated fails: an event whose \<^verbatim>\<open>validation_status\<close> is \<^verbatim>\<open>"unknown"\<close> is
  decoded, and the decoded field is \<^verbatim>\<open>"unknown"\<close>.
\<close>

theorem validation_status_unknown_counterexample:
  "ContractEvent_validate json_conversions
     (JObj [(''id'', JInt 1),
            (''contract_id'', JStr ''CCAAA111222333444555666777888999AAABBBCCCDDDEEEFFF''),
            (''contract_name'', JStr ''Test Token''),
            (''event_type'', JStr ''transfer''),
            (''payload'', JObj [(''amount'', JStr ''1000'')]),
            (''payload_hash'', JStr ''abc123def456''),
            (''ledger'', JInt 100000),
            (''event_index'', JInt 0),
            (''timestamp'', JStr ''2026-01-01T12:00:00Z''),
            (''tx_hash'', JStr ''tx123456''),
            (''schema_version'', JInt 1),
            (''validation_status'', JStr ''unknown'')])
   = Inr \<lparr>ev_id = 1,
          ev_contract_id = ''CCAAA111222333444555666777888999AAABBBCCCDDDEEEFFF'',
          ev_contract_name = ''Test Token'', ev_event_type = ''transfer'',
          ev_payload = [(''amount'', JStr ''1000'')], ev_payload_hash = ''abc123def456'',
          ev_ledger = 100000, ev_event_index = 0,
          ev_timestamp = \<lparr>year = 2026, month = 1, day = 1, hour = 12, minute = 0, second = 0\<rparr>,
          ev_tx_hash = ''tx123456'', ev_schema_version = Some 1,
          ev_validation_status = ''unknown''\<rparr>"
  by (simp add: ContractEvent_validate_def validated_def required_field_def default_field_def
      json_conversions_def str_validator_def dict_validator_def nullable_def
      parse_datetime_def digit_def days_in_month_def ContractEvent.defs)

section \<open>Recording an event\<close>

lemma RecordEventRequest_init_ok:
  "length contract_id \<le> 56 \<Longrightarrow> length event_type \<le> 100 \<Longrightarrow> length payload_hash \<le> 64 \<Longrightarrow>
   RecordEventRequest_init contract_id event_type payload_hash =
     Inr \<lparr>rq_contract_id = contract_id, rq_event_type = event_type,
          rq_payload_hash = payload_hash\<rparr>"
  by (simp add: RecordEventRequest_init_def max_length_def validated_def RecordEventRequest.defs)

lemma RecordEventRequest_init_too_long:
  "56 < length contract_id \<or> 100 < length event_type \<or> 64 < length payload_hash \<Longrightarrow>
   \<exists>es. es \<noteq> [] \<and> RecordEventRequest_init contract_id event_type payload_hash =
     Inl (PydanticValidationError es)"
  by (auto simp: RecordEventRequest_init_def max_length_def validated_def)

text \<open>
  C6: when the contract address has more than 56 characters, the event type more than
  100 or the payload hash more than 64, \<^verbatim>\<open>record_event\<close> raises the validation error
  of the request model and has sent nothing; otherwise it sends exactly one request,
  the POST of the three fields to \<^verbatim>\<open>/api/record-event/\<close>.
\<close>

theorem record_event_length_ceilings:
  "(56 < length contract_id \<or> 100 < length event_type \<or> 64 < length payload_hash \<longrightarrow>
      fst (record_event self transport contract_id event_type payload_hash) = [] \<and>
      (\<exists>es. es \<noteq> [] \<and> snd (record_event self transport contract_id event_type payload_hash)
                = Inl (PydanticValidationError es))) \<and>
   (length contract_id \<le> 56 \<and> length event_type \<le> 100 \<and> length payload_hash \<le> 64 \<longrightarrow>
      fst (record_event self transport contract_id event_type payload_hash) =
        [\<lparr>http_method = POST, http_url = urljoin (base_url self) ''/api/record-event/'',
          http_headers = get_headers self, http_params = None,
          http_json = Some (JObj [(''contract_id'', JStr contract_id),
                                  (''event_type'', JStr event_type),
                                  (''payload_hash'', JStr payload_hash)])\<rparr>])"
proof (intro conjI impI)
  assume "56 < length contract_id \<or> 100 < length event_type \<or> 64 < length payload_hash"
  from RecordEventRequest_init_too_long [OF this] obtain es where
    "es \<noteq> []"
    "RecordEventRequest_init contract_id event_type payload_hash = Inl (PydanticValidationError es)"
    by blast
  then show "fst (record_event self transport contract_id event_type payload_hash) = []"
    and "\<exists>es. es \<noteq> [] \<and> snd (record_event self transport contract_id event_type payload_hash)
                = Inl (PydanticValidationError es)"
    by (simp_all add: record_event_def)
next
  assume "length contract_id \<le> 56 \<and> length event_type \<le> 100 \<and> length payload_hash \<le> 64"
  then have "RecordEventRequest_init contract_id event_type payload_hash =
     Inr \<lparr>rq_contract_id = contract_id, rq_event_type = event_type,
          rq_payload_hash = payload_hash\<rparr>"
    by (simp add: RecordEventRequest_init_ok)
  then show "fst (record_event self transport contract_id event_type payload_hash) =
        [\<lparr>http_method = POST, http_url = urljoin (base_url self) ''/api/record-event/'',
          http_headers = get_headers self, http_params = None,
          http_json = Some (JObj [(''contract_id'', JStr contract_id),
                                  (''event_type'', JStr event_type),
                                  (''payload_hash'', JStr payload_hash)])\<rparr>]"
    by (simp add: record_event_def model_dump_def Let_def split: sum.splits)
qed

text \<open>
  The theorem at an address of 57 characters, and at the call of
  \<^verbatim>\<open>test_record_event\<close>, which is sent and answered.
\<close>

theorem record_event_length_ceilings_witness:
  "record_event (SoroScanClient_init ''https://api.test.soroscan.io'' None 30) accepting
          (replicate 57 CHR ''C'') ''transfer'' ''abc123def456'' =
     ([], Inl (PydanticValidationError [string_too_long ''contract_id''])) \<and>
   record_event (SoroScanClient_init ''https://api.test.soroscan.io'' None 30) accepting
          ''CCAAA111222333444555666777888999AAABBBCCCDDDEEEFFF'' ''transfer'' ''abc123def456'' =
     ([\<lparr>http_method = POST,
        http_url = urljoin ''https://api.test.soroscan.io'' ''/api/record-event/'',
        http_headers = [(''Content-Type'', ''application/json'')], http_params = None,
        http_json = Some (JObj
          [(''contract_id'', JStr ''CCAAA111222333444555666777888999AAABBBCCCDDDEEEFFF''),
           (''event_type'', JStr ''transfer''),
           (''payload_hash'', JStr ''abc123def456'')])\<rparr>],
      Inr \<lparr>rs_status = ''submitted'', rs_tx_hash = Some ''tx123456'',
           rs_transaction_status = Some ''pending'', rs_error = None\<rparr>)"
proof -
  let ?c = "SoroScanClient_init ''https://api.test.soroscan.io'' None 30"
  let ?a = "''CCAAA111222333444555666777888999AAABBBCCCDDDEEEFFF''"
  have 1: "fst (record_event ?c accepting (replicate 57 CHR ''C'') ''transfer'' ''abc123def456'') = []"
    using record_event_length_ceilings
      [of "replicate 57 CHR ''C''" "''transfer''" "''abc123def456''" ?c accepting]
    by simp
  have 2: "snd (record_event ?c accepting (replicate 57 CHR ''C'') ''transfer'' ''abc123def456'')
      = Inl (PydanticValidationError [string_too_long ''contract_id''])"
    by (simp add: record_event_def RecordEventRequest_init_def max_length_def validated_def)
  have 3: "fst (record_event ?c accepting ?a ''transfer'' ''abc123def456'') =
     [\<lparr>http_method = POST,
        http_url = urljoin ''https://api.test.soroscan.io'' ''/api/record-event/'',
        http_headers = [(''Content-Type'', ''application/json'')], http_params = None,
        http_json = Some (JObj
          [(''contract_id'', JStr ?a),
           (''event_type'', JStr ''transfer''),
           (''payload_hash'', JStr ''abc123def456'')])\<rparr>]"
    using record_event_length_ceilings [of ?a "''transfer''" "''abc123def456''" ?c accepting]
    by (simp add: SoroScanClient_init_def get_headers_def rstrip_def)
  have 4: "snd (record_event ?c accepting ?a ''transfer'' ''abc123def456'') =
      Inr \<lparr>rs_status = ''submitted'', rs_tx_hash = Some ''tx123456'',
           rs_transaction_status = Some ''pending'', rs_error = None\<rparr>"
    by (simp add: record_event_def RecordEventRequest_init_ok accepting_def handle_response_def
        response_json_def RecordEventResponse_validate_def validated_def required_field_def
        default_field_def str_validator_def nullable_def RecordEventResponse.defs)
  from 1 2 3 4 show ?thesis by (simp add: prod_eq_iff)
qed

end
